theory Spec2Isabelle
  imports Complex_Main
begin

section \<open>Numbers\<close>

text \<open>
  JavaScript numbers are doubles. Metric values and sample values are modelled
  as real numbers: what is proved about them concerns the formula that
  computes them and their order (\<open>Math.min\<close>, \<open>Math.max\<close>), not the
  rounding of each operation. Where rounding decides a result, in the split
  point of the forecast chart, the double arithmetic is written out. Counters,
  lengths and timer handles are natural numbers.
\<close>

section \<open>The training simulation (class MLTraining)\<close>

text \<open>
  The object literal \<open>modelData\<close> of the constructor has four fixed keys; the
  model cards of the page select one of them.
\<close>

datatype model_key = Otolith | Lstm | Edna | Nlp

record model_info =
  name :: string
  model_type :: string
  accuracy :: "real list"
  loss :: "real list"
  dataset_size :: nat
  status :: string

text \<open>
  What the object sends to the page: the calls of \<open>addTrainingLog\<close> and of
  \<open>window.bluePulseApp.showAlert\<close>, oldest first. A log message is kept with the
  numbers it formats, not with the formatted text. Charts, button states and
  metric displays are renderings of the fields below and are left out.
\<close>

datatype log_message =
    Starting string
  | Paused
  | Stopped
  | EpochProgress nat "int option" real real
  | Completed real

datatype effect = TrainingLog log_message | Alert string string

text \<open>
  The fields of the object, followed by the part of the runtime it acts on:
  \<open>timers\<close> holds the handles of the interval timers that are active (each of
  them was created by \<open>startTraining\<close> and calls \<open>simulateTrainingEpoch\<close>),
  \<open>nextTimer\<close> is the handle the next \<open>setInterval\<close> returns. \<open>totalEpochs\<close>
  is \<open>None\<close> when \<open>parseInt\<close> gave \<open>NaN\<close>. The methods \<open>evaluateModel\<close> and
  \<open>deployModel\<close> read and write neither the scheduler fields nor the metric
  arrays and are left out.
\<close>

record ml_training =
  currentModel :: model_key
  isTraining :: bool
  trainingInterval :: "nat option"
  currentEpoch :: nat
  totalEpochs :: "int option"
  modelData :: "model_key \<Rightarrow> model_info"
  timers :: "nat set"
  nextTimer :: nat
  trace :: "effect list"

definition seedData :: "model_key \<Rightarrow> model_info" where
  "seedData k = (case k of
     Otolith \<Rightarrow> \<lparr>name = ''ResNet Otolith Classifier'', model_type = ''CNN'',
        accuracy = [0.2, 0.4, 0.6, 0.75, 0.82, 0.88, 0.91, 0.942],
        loss = [2.1, 1.8, 1.4, 1.1, 0.8, 0.6, 0.4, 0.32],
        dataset_size = 2500, status = ''ready''\<rparr>
   | Lstm \<Rightarrow> \<lparr>name = ''LSTM Environmental Predictor'', model_type = ''RNN'',
        accuracy = [0.3, 0.5, 0.65, 0.75, 0.82, 0.86, 0.89, 0.913],
        loss = [1.9, 1.5, 1.2, 0.9, 0.7, 0.5, 0.4, 0.35],
        dataset_size = 720, status = ''training''\<rparr>
   | Edna \<Rightarrow> \<lparr>name = ''Random Forest eDNA Classifier'', model_type = ''Ensemble'',
        accuracy = [0.4, 0.6, 0.75, 0.83, 0.89, 0.92, 0.95, 0.961],
        loss = [1.6, 1.2, 0.9, 0.7, 0.5, 0.4, 0.3, 0.25],
        dataset_size = 500, status = ''deployed''\<rparr>
   | Nlp \<Rightarrow> \<lparr>name = ''DistilBERT Marine NLP'', model_type = ''Transformer'',
        accuracy = [0.4, 0.55, 0.68, 0.75, 0.81, 0.85, 0.88, 0.89],
        loss = [1.8, 1.4, 1.1, 0.9, 0.7, 0.6, 0.5, 0.45],
        dataset_size = 5000, status = ''fine-tuning''\<rparr>)"

text \<open>
  The constructor. Its parameter is the first timer handle that is free once
  the constructor has run; the runtime hands out positive handles only.
\<close>

definition MLTraining_new :: "nat \<Rightarrow> ml_training" where
  "MLTraining_new h0 =
     \<lparr>currentModel = Otolith, isTraining = False, trainingInterval = None,
      currentEpoch = 0, totalEpochs = Some 100, modelData = seedData,
      timers = {}, nextTimer = h0, trace = []\<rparr>"

definition addTrainingLog :: "log_message \<Rightarrow> ml_training \<Rightarrow> ml_training" where
  "addTrainingLog m s = s\<lparr>trace := trace s @ [TrainingLog m]\<rparr>"

definition showAlert :: "string \<Rightarrow> string \<Rightarrow> ml_training \<Rightarrow> ml_training" where
  "showAlert message kind s = s\<lparr>trace := trace s @ [Alert message kind]\<rparr>"

definition setInterval :: "ml_training \<Rightarrow> nat \<times> ml_training" where
  "setInterval s =
     (nextTimer s, s\<lparr>timers := insert (nextTimer s) (timers s), nextTimer := Suc (nextTimer s)\<rparr>)"

definition clearInterval :: "nat \<Rightarrow> ml_training \<Rightarrow> ml_training" where
  "clearInterval h s = s\<lparr>timers := timers s - {h}\<rparr>"

text \<open>
  The block \<open>if (this.trainingInterval) { clearInterval(...); this.trainingInterval = null; }\<close>
  that pause, stop and completion share. The test is JavaScript truthiness: a
  handle 0 would count as absent.
\<close>

definition cancelInterval :: "ml_training \<Rightarrow> ml_training" where
  "cancelInterval s =
     (case trainingInterval s of
        None \<Rightarrow> s
      | Some h \<Rightarrow> if h = 0 then s else (clearInterval h s)\<lparr>trainingInterval := None\<rparr>)"

definition startTraining :: "ml_training \<Rightarrow> ml_training" where
  "startTraining s =
     (if isTraining s then s
      else
        let s1 = s\<lparr>isTraining := True, currentEpoch := 0\<rparr>;
            s2 = addTrainingLog (Starting (name (modelData s1 (currentModel s1)))) s1;
            (h, s3) = setInterval s2
        in s3\<lparr>trainingInterval := Some h\<rparr>)"

definition pauseTraining :: "ml_training \<Rightarrow> ml_training" where
  "pauseTraining s =
     (if \<not> isTraining s then s else addTrainingLog Paused (cancelInterval s))"

definition stopTraining :: "ml_training \<Rightarrow> ml_training" where
  "stopTraining s = addTrainingLog Stopped (cancelInterval (s\<lparr>isTraining := False\<rparr>))"

definition completeTraining :: "ml_training \<Rightarrow> ml_training" where
  "completeTraining s =
     (let s1 = cancelInterval (s\<lparr>isTraining := False\<rparr>);
          finalAccuracy = last (accuracy (modelData s1 (currentModel s1)));
          s2 = addTrainingLog (Completed finalAccuracy) s1
      in showAlert ''Model training completed successfully!'' ''success'' s2)"

text \<open>\<open>this.currentEpoch >= this.totalEpochs\<close>; a comparison with \<open>NaN\<close> is false.\<close>

definition epochsReached :: "nat \<Rightarrow> int option \<Rightarrow> bool" where
  "epochsReached e t = (case t of None \<Rightarrow> False | Some n \<Rightarrow> n \<le> int e)"

text \<open>
  One simulated epoch; \<open>ra\<close> and \<open>rl\<close> are the two values \<open>Math.random()\<close>
  returns, in the order of the calls. The metric arrays are seeded with eight
  entries and only pushed to, so \<open>last\<close> reads an entry that exists
  (lemma \<open>reachable_metrics_nonempty\<close>).
\<close>

definition simulateTrainingEpoch :: "real \<Rightarrow> real \<Rightarrow> ml_training \<Rightarrow> ml_training" where
  "simulateTrainingEpoch ra rl s =
     (let s1 = s\<lparr>currentEpoch := currentEpoch s + 1\<rparr>;
          k = currentModel s1;
          md = modelData s1 k;
          baseAccuracy = last (accuracy md);
          baseLoss = last (loss md);
          newAccuracy = min 0.98 (baseAccuracy + (ra - 0.3) * 0.01);
          newLoss = max 0.1 (baseLoss + (rl - 0.7) * 0.05);
          s2 = s1\<lparr>modelData := (modelData s1)
                 (k := md\<lparr>accuracy := accuracy md @ [newAccuracy],
                          loss := loss md @ [newLoss]\<rparr>)\<rparr>;
          s3 = (if currentEpoch s2 mod 10 = 0
                then addTrainingLog
                       (EpochProgress (currentEpoch s2) (totalEpochs s2) newLoss newAccuracy) s2
                else s2)
      in if epochsReached (currentEpoch s3) (totalEpochs s3) then completeTraining s3 else s3)"

text \<open>
  The runtime: the interval timer \<open>h\<close> comes due. Its callback runs only if
  the timer has not been cleared.
\<close>

definition fire :: "nat \<Rightarrow> real \<Rightarrow> real \<Rightarrow> ml_training \<Rightarrow> ml_training" where
  "fire h ra rl s = (if h \<in> timers s then simulateTrainingEpoch ra rl s else s)"

text \<open>
  A tick: one interval of 1000 ms elapses and every interval timer that is
  active comes due once, in the order of creation. The timer callback is the
  only caller of \<open>simulateTrainingEpoch\<close>.
\<close>

definition tick :: "real \<Rightarrow> real \<Rightarrow> ml_training \<Rightarrow> ml_training" where
  "tick ra rl s = fold (\<lambda>h. fire h ra rl) (sorted_list_of_set (timers s)) s"

fun ticks :: "(real \<times> real) list \<Rightarrow> ml_training \<Rightarrow> ml_training" where
  "ticks [] s = s"
| "ticks ((ra, rl) # ds) s = ticks ds (tick ra rl s)"

text \<open>The click handler of a model card and the change handler of the epochs field.\<close>

definition selectModel :: "model_key \<Rightarrow> ml_training \<Rightarrow> ml_training" where
  "selectModel k s = s\<lparr>currentModel := k\<rparr>"

definition setEpochs :: "int option \<Rightarrow> ml_training \<Rightarrow> ml_training" where
  "setEpochs v s = s\<lparr>totalEpochs := v\<rparr>"

datatype event =
    Start | Pause | Stop
  | Fire nat real real
  | SelectModel model_key
  | SetEpochs "int option"

fun step :: "event \<Rightarrow> ml_training \<Rightarrow> ml_training" where
  "step Start s = startTraining s"
| "step Pause s = pauseTraining s"
| "step Stop s = stopTraining s"
| "step (Fire h ra rl) s = fire h ra rl s"
| "step (SelectModel k) s = selectModel k s"
| "step (SetEpochs v) s = setEpochs v s"

inductive reachable :: "ml_training \<Rightarrow> bool" where
  reachable_new: "0 < h0 \<Longrightarrow> reachable (MLTraining_new h0)"
| reachable_step: "reachable s \<Longrightarrow> reachable (step e s)"

text \<open>The number of times the completion callback has run.\<close>

definition completions :: "ml_training \<Rightarrow> nat" where
  "completions s =
     length (filter (\<lambda>e. e = Alert ''Model training completed successfully!'' ''success'') (trace s))"

text \<open>
  What every reachable state satisfies: at most one interval timer is active, it
  is the one the object holds in \<open>trainingInterval\<close>, its handle is positive,
  and a held timer implies \<open>isTraining\<close>.
\<close>

definition wf :: "ml_training \<Rightarrow> bool" where
  "wf s \<longleftrightarrow>
     0 < nextTimer s \<and> timers s = set_option (trainingInterval s) \<and>
     (\<forall>h. trainingInterval s = Some h \<longrightarrow> 0 < h \<and> h < nextTimer s \<and> isTraining s)"


text \<open>A running scheduler one epoch into its run.\<close>

definition oneEpochRun :: ml_training where
  "oneEpochRun = step (Fire 1 (1/2) (1/2)) (step Start (MLTraining_new 1))"


text \<open>
  The entries that simulated epochs have pushed after the seed entries, and the
  bounds they keep.
\<close>

definition appendedAccuracy :: "ml_training \<Rightarrow> model_key \<Rightarrow> real list" where
  "appendedAccuracy s k = drop (length (accuracy (seedData k))) (accuracy (modelData s k))"

definition appendedLoss :: "ml_training \<Rightarrow> model_key \<Rightarrow> real list" where
  "appendedLoss s k = drop (length (loss (seedData k))) (loss (modelData s k))"

definition metrics_ok :: "ml_training \<Rightarrow> bool" where
  "metrics_ok s \<longleftrightarrow>
     (\<forall>k. accuracy (modelData s k) = accuracy (seedData k) @ appendedAccuracy s k \<and>
          loss (modelData s k) = loss (seedData k) @ appendedLoss s k \<and>
          (\<forall>x \<in> set (appendedAccuracy s k). x \<le> 0.98) \<and>
          (\<forall>x \<in> set (appendedLoss s k). 0.1 \<le> x))"

text \<open>
  A run of 1000 epochs: the target is set to 2000 in the epochs field, training
  is started and the timer comes due 1000 times.
\<close>

definition thousandEpochRun :: ml_training where
  "thousandEpochRun =
     ticks (replicate 1000 (1/2, 1/2)) (startTraining (step (SetEpochs (Some 2000)) (MLTraining_new 1)))"

section \<open>The oceanographic module (class OceanographicModule)\<close>

record sample =
  timestamp :: int
  "value" :: real
  predicted :: real

text \<open>
  The keys of the object that \<open>loadHistoricalData\<close> builds, in the order of the
  literal.
\<close>

datatype parameter = Temperature | Salinity | Chlorophyll | Ph | Oxygen

definition parameters :: "parameter list" where
  "parameters = [Temperature, Salinity, Chlorophyll, Ph, Oxygen]"

text \<open>
  The fields of the object. The constructor puts an empty \<open>Map\<close> into
  \<open>historicalData\<close> and \<open>init\<close> replaces it at once by the loaded object, so
  only the loaded form is modelled.
\<close>

record oceanographic =
  currentParameter :: string
  currentStation :: string
  forecastRange :: string
  historicalData :: "parameter \<Rightarrow> sample list"

datatype js_error = TypeError

definition hoursOf :: "string \<Rightarrow> nat" where
  "hoursOf r = (if r = ''24h'' then 24 else if r = ''7d'' then 168 else 720)"

text \<open>
  The sample that the loop of \<open>loadHistoricalData\<close> pushes for parameter \<open>p\<close>
  at index \<open>i\<close>. Time is in milliseconds; \<open>d\<close> holds the values of
  \<open>Math.random()\<close> drawn for this sample (temperature draws once and uses
  the same noise for both fields).
\<close>

definition historicalSample :: "parameter \<Rightarrow> int \<Rightarrow> nat \<Rightarrow> nat \<Rightarrow> real \<times> real \<Rightarrow> sample" where
  "historicalSample p now hours i d =
     (let ts = now - (int hours - int i) * 60 * 60 * 1000 in
      case p of
        Temperature \<Rightarrow>
          (let tempBase = 28.5;
               dailyVar = sin (real i * 2 * pi / 24) * 1.5;
               seasonalVar = sin (real i * 2 * pi / (24 * 365)) * 2;
               noise = (fst d - 0.5) * 0.8
           in \<lparr>timestamp = ts,
               value = tempBase + dailyVar + seasonalVar + noise,
               predicted = tempBase + dailyVar + seasonalVar + noise * 0.3\<rparr>)
      | Salinity \<Rightarrow>
          (let salBase = 34.2;
               salVar = sin (real i * 2 * pi / (24 * 7)) * 0.5
           in \<lparr>timestamp = ts,
               value = salBase + salVar + (fst d - 0.5) * 0.3,
               predicted = salBase + salVar + (snd d - 0.5) * 0.1\<rparr>)
      | Chlorophyll \<Rightarrow>
          (let chlBase = 2.1;
               chlVar = sin (real i * 2 * pi / (24 * 30)) * 1.2
           in \<lparr>timestamp = ts,
               value = max 0.1 (chlBase + chlVar + (fst d - 0.5) * 0.8),
               predicted = max 0.1 (chlBase + chlVar + (snd d - 0.5) * 0.4)\<rparr>)
      | Ph \<Rightarrow>
          (let phBase = 8.1;
               phVar = sin (real i * 2 * pi / (24 * 14)) * 0.15
           in \<lparr>timestamp = ts,
               value = phBase + phVar + (fst d - 0.5) * 0.1,
               predicted = phBase + phVar + (snd d - 0.5) * 0.05\<rparr>)
      | Oxygen \<Rightarrow>
          (let oxyBase = 6.8;
               oxyVar = sin (real i * 2 * pi / 24) * 0.8
           in \<lparr>timestamp = ts,
               value = oxyBase + oxyVar + (fst d - 0.5) * 0.4,
               predicted = oxyBase + oxyVar + (snd d - 0.5) * 0.2\<rparr>))"

definition loadHistoricalData ::
    "int \<Rightarrow> (nat \<Rightarrow> parameter \<Rightarrow> real \<times> real) \<Rightarrow> oceanographic \<Rightarrow> oceanographic" where
  "loadHistoricalData now draws m =
     (let hours = hoursOf (forecastRange m)
      in m\<lparr>historicalData :=
             (\<lambda>p. map (\<lambda>i. historicalSample p now hours i (draws i p)) [0..<hours])\<rparr>)"

text \<open>
  The constructor with \<open>init\<close>, and the three change handlers of
  \<open>setupControls\<close>: each stores the new selection and calls \<open>updateCharts\<close>,
  which reloads the data.
\<close>

definition OceanographicModule_new ::
    "int \<Rightarrow> (nat \<Rightarrow> parameter \<Rightarrow> real \<times> real) \<Rightarrow> oceanographic" where
  "OceanographicModule_new now draws =
     loadHistoricalData now draws
       \<lparr>currentParameter = ''temperature'', currentStation = ''all'', forecastRange = ''7d'',
        historicalData = (\<lambda>p. [])\<rparr>"

definition parameterChanged ::
    "string \<Rightarrow> int \<Rightarrow> (nat \<Rightarrow> parameter \<Rightarrow> real \<times> real) \<Rightarrow> oceanographic \<Rightarrow> oceanographic" where
  "parameterChanged v now draws m = loadHistoricalData now draws (m\<lparr>currentParameter := v\<rparr>)"

definition stationChanged ::
    "string \<Rightarrow> int \<Rightarrow> (nat \<Rightarrow> parameter \<Rightarrow> real \<times> real) \<Rightarrow> oceanographic \<Rightarrow> oceanographic" where
  "stationChanged v now draws m = loadHistoricalData now draws (m\<lparr>currentStation := v\<rparr>)"

definition forecastRangeChanged ::
    "string \<Rightarrow> int \<Rightarrow> (nat \<Rightarrow> parameter \<Rightarrow> real \<times> real) \<Rightarrow> oceanographic \<Rightarrow> oceanographic" where
  "forecastRangeChanged v now draws m = loadHistoricalData now draws (m\<lparr>forecastRange := v\<rparr>)"

text \<open>
  The body of the \<open>forEach\<close> in \<open>updateCurrentValues\<close>, for one buffer:
  \<open>liveSample\<close> is the object pushed, \<open>appendSample\<close> is the push followed by
  the shift that keeps the last 1000 points.
\<close>

definition liveSample :: "int \<Rightarrow> real \<times> real \<Rightarrow> sample list \<Rightarrow> sample" where
  "liveSample now d data =
     (let lastValue = value (last data);
          newValue = lastValue + (fst d - 0.5) * 0.2
      in \<lparr>timestamp = now, value = newValue, predicted = newValue + (snd d - 0.5) * 0.1\<rparr>)"

definition appendSample :: "sample \<Rightarrow> sample list \<Rightarrow> sample list" where
  "appendSample x data =
     (let data' = data @ [x] in if length data' > 1000 then tl data' else data')"

definition updateBuffer :: "int \<Rightarrow> real \<times> real \<Rightarrow> sample list \<Rightarrow> sample list" where
  "updateBuffer now d data = appendSample (liveSample now d data) data"

text \<open>
  \<open>updateCurrentValues\<close>, the callback of the 30 second interval. Reading
  \<open>.value\<close> of the last element of an empty array throws a \<open>TypeError\<close>.
\<close>

definition updateCurrentValues ::
    "int \<Rightarrow> (parameter \<Rightarrow> real \<times> real) \<Rightarrow> oceanographic \<Rightarrow> js_error + oceanographic" where
  "updateCurrentValues now draws m =
     (if list_ex (\<lambda>p. historicalData m p = []) parameters then Inl TypeError
      else Inr (m\<lparr>historicalData := (\<lambda>p. updateBuffer now (draws p) (historicalData m p))\<rparr>))"

inductive oceanReachable :: "oceanographic \<Rightarrow> bool" where
  ocean_new: "oceanReachable (OceanographicModule_new now draws)"
| ocean_parameter: "oceanReachable m \<Longrightarrow> oceanReachable (parameterChanged v now draws m)"
| ocean_station: "oceanReachable m \<Longrightarrow> oceanReachable (stationChanged v now draws m)"
| ocean_range: "oceanReachable m \<Longrightarrow> oceanReachable (forecastRangeChanged v now draws m)"
| ocean_update:
    "oceanReachable m \<Longrightarrow> updateCurrentValues now d m = Inr m' \<Longrightarrow> oceanReachable m'"

text \<open>
  A run of updates on one buffer: the buffer it leaves and the samples it
  pushed, oldest first. An update is a time and the two random draws.
\<close>

fun appendAll :: "sample list \<Rightarrow> sample list \<Rightarrow> sample list" where
  "appendAll [] data = data"
| "appendAll (x # xs) data = appendAll xs (appendSample x data)"

fun updatesBuffer :: "(int \<times> real \<times> real) list \<Rightarrow> sample list \<Rightarrow> sample list" where
  "updatesBuffer [] data = data"
| "updatesBuffer ((now, d) # us) data = updatesBuffer us (updateBuffer now d data)"

fun pushedSamples :: "(int \<times> real \<times> real) list \<Rightarrow> sample list \<Rightarrow> sample list" where
  "pushedSamples [] data = []"
| "pushedSamples ((now, d) # us) data =
     liveSample now d data # pushedSamples us (updateBuffer now d data)"

text \<open>
  The factor of the noise term in the \<open>value\<close> field that
  \<open>loadHistoricalData\<close> computes, for each parameter
  (lemma \<open>historicalSample_noise\<close>).
\<close>

definition noiseAmplitude :: "parameter \<Rightarrow> real" where
  "noiseAmplitude p =
     (case p of Temperature \<Rightarrow> 0.8 | Salinity \<Rightarrow> 0.3 | Chlorophyll \<Rightarrow> 0.8
              | Ph \<Rightarrow> 0.1 | Oxygen \<Rightarrow> 0.4)"

text \<open>
  Runs of the interval callback on the whole module, one call for each update
  of the list; an update is a time and the draws for each parameter. A call
  that throws ends the run with its error (the buffers it had already changed
  are not kept); no reachable state throws. \<open>drawsFor\<close> selects the draws of
  one parameter.
\<close>

fun updatesModule ::
    "(int \<times> (parameter \<Rightarrow> real \<times> real)) list \<Rightarrow> oceanographic \<Rightarrow> js_error + oceanographic" where
  "updatesModule [] m = Inr m"
| "updatesModule ((now, draws) # us) m =
     (case updateCurrentValues now draws m of
        Inl e \<Rightarrow> Inl e
      | Inr m' \<Rightarrow> updatesModule us m')"

definition drawsFor ::
    "parameter \<Rightarrow> (int \<times> (parameter \<Rightarrow> real \<times> real)) list \<Rightarrow> (int \<times> real \<times> real) list" where
  "drawsFor p us = map (\<lambda>(now, draws). (now, draws p)) us"

text \<open>
  The random walk that starts after the sample \<open>x\<close>: each step is the sample
  that an update pushes when the previous one is the latest in the buffer.
\<close>

fun randomWalk :: "sample \<Rightarrow> (int \<times> real \<times> real) list \<Rightarrow> sample list" where
  "randomWalk x [] = []"
| "randomWalk x ((now, d) # us) = liveSample now d [x] # randomWalk (liveSample now d [x]) us"

text \<open>A module as the constructor leaves it, and draws to update it with.\<close>

definition sampleModule :: oceanographic where
  "sampleModule = OceanographicModule_new 0 (\<lambda>i p. (1/2, 1/2))"

definition unitDraws :: "parameter \<Rightarrow> real \<times> real" where
  "unitDraws p = (1, 1/2)"


subsection \<open>The split of the forecast chart\<close>

text \<open>
  \<open>Array.prototype.slice\<close>: a negative index counts from the end, and both
  indices are clamped to the array.
\<close>

definition relativeIndex :: "int \<Rightarrow> nat \<Rightarrow> nat" where
  "relativeIndex i len = (if i < 0 then nat (max (int len + i) 0) else min (nat i) len)"

definition slice :: "'a list \<Rightarrow> int \<Rightarrow> int \<Rightarrow> 'a list" where
  "slice xs start fin =
     (let k = relativeIndex start (length xs); final = relativeIndex fin (length xs)
      in take (final - k) (drop k xs))"

definition sliceFrom :: "'a list \<Rightarrow> int \<Rightarrow> 'a list" where
  "sliceFrom xs start = drop (relativeIndex start (length xs)) xs"

text \<open>
  \<open>Math.floor(data.length * 0.7)\<close> in double arithmetic. The literal \<open>0.7\<close> is
  the double \<open>6305039478318694 / 2^53\<close>; the product of a length with it is
  rounded to 53 significant bits, ties to even, and then floored. Numbers are
  counted in units of \<open>2^-53\<close>. (With the exact ratio \<open>7/10\<close> the result
  differs: 720 samples split at 503, not at 504.)
\<close>

fun bitLength :: "nat \<Rightarrow> nat" where
  "bitLength n = (if n = 0 then 0 else Suc (bitLength (n div 2)))"

declare bitLength.simps [simp del]

definition double_0_7 :: nat where
  "double_0_7 = 6305039478318694"

definition roundToDouble :: "nat \<Rightarrow> nat" where
  "roundToDouble q =
     (let L = bitLength q in
      if L \<le> 53 then q
      else
        let s = L - 53; m = q div 2 ^ s; r = q mod 2 ^ s; half = 2 ^ (s - 1)
        in (if half < r \<or> (r = half \<and> odd m) then m + 1 else m) * 2 ^ s)"

definition splitPointOf :: "nat \<Rightarrow> nat" where
  "splitPointOf n = roundToDouble (n * double_0_7) div 2 ^ 53"

text \<open>The split in \<open>createForecastChart\<close>.\<close>

definition forecastSplit :: "sample list \<Rightarrow> sample list \<times> sample list" where
  "forecastSplit data =
     (let splitPoint = splitPointOf (length data);
          historical = slice data 0 (int splitPoint);
          forecast = sliceFrom data (int splitPoint - 1)
      in (historical, forecast))"

text \<open>Numbered samples, to run the split on.\<close>

definition numbered :: "nat \<Rightarrow> sample" where
  "numbered i = \<lparr>timestamp = int i, value = real i, predicted = real i + 1/2\<rparr>"

section \<open>The dashboard figures (class BluePulseApp)\<close>

text \<open>
  The object read from the statistics response; a field that the response
  lacks reads as \<open>undefined\<close>, here \<open>None\<close>.
\<close>

record dashboard_stats =
  totalSpecies :: "int option"
  aiModels :: "int option"
  monitoringStations :: "int option"
  predictionsToday :: "int option"

text \<open>
  What \<open>fetch\<close> and \<open>response.json()\<close> can give: the request is rejected, or
  a response arrives with its \<open>ok\<close> flag and a body that fails to parse, is
  \<open>null\<close> (reading a field of it throws), or is an object.
\<close>

datatype json_body = JsonRejected | JsonNull | JsonObject dashboard_stats

datatype fetch_result = FetchRejected | Response bool json_body

text \<open>
  The part of the page the loading code writes: the \<open>display\<close> style of the
  loading overlay and the count-up animations started, as pairs of element id
  and end value.
\<close>

record page =
  overlayDisplay :: string
  animations :: "(string \<times> int option) list"

definition mockData :: dashboard_stats where
  "mockData = \<lparr>totalSpecies = Some 5247, aiModels = Some 8,
                monitoringStations = Some 15, predictionsToday = Some 1847\<rparr>"

text \<open>
  \<open>present\<close> tells which element ids \<open>document.getElementById\<close> finds; an
  animation is started for the elements found.
\<close>

definition updateKPIsWithData :: "(string \<Rightarrow> bool) \<Rightarrow> dashboard_stats \<Rightarrow> page \<Rightarrow> page" where
  "updateKPIsWithData present d pg =
     (let elements = [(''total-species'', totalSpecies d), (''ai-models'', aiModels d),
                      (''monitoring-stations'', monitoringStations d),
                      (''predictions-today'', predictionsToday d)]
      in pg\<lparr>animations := animations pg @ filter (\<lambda>(i, v). present i) elements\<rparr>)"

definition updateKPIsWithMockData :: "(string \<Rightarrow> bool) \<Rightarrow> page \<Rightarrow> page" where
  "updateKPIsWithMockData present pg = updateKPIsWithData present mockData pg"

definition updateDashboardKPIs :: "(string \<Rightarrow> bool) \<Rightarrow> fetch_result \<Rightarrow> page \<Rightarrow> page" where
  "updateDashboardKPIs present r pg =
     (case r of
        FetchRejected \<Rightarrow> updateKPIsWithMockData present pg
      | Response ok body \<Rightarrow>
          if \<not> ok then updateKPIsWithMockData present pg
          else (case body of
                  JsonRejected \<Rightarrow> updateKPIsWithMockData present pg
                | JsonNull \<Rightarrow> updateKPIsWithMockData present pg
                | JsonObject d \<Rightarrow> updateKPIsWithData present d pg))"

definition showLoading :: "page \<Rightarrow> page" where
  "showLoading pg = pg\<lparr>overlayDisplay := ''flex''\<rparr>"

definition hideLoading :: "page \<Rightarrow> page" where
  "hideLoading pg = pg\<lparr>overlayDisplay := ''none''\<rparr>"

text \<open>
  \<open>loadInitialData\<close>. Without the overlay element \<open>showLoading\<close> throws before
  anything is fetched, and so does the \<open>hideLoading\<close> of the handler.
\<close>

definition loadInitialData :: "(string \<Rightarrow> bool) \<Rightarrow> fetch_result \<Rightarrow> page \<Rightarrow> js_error + page" where
  "loadInitialData present r pg =
     (if \<not> present ''loading-overlay'' then Inl TypeError
      else Inr (hideLoading (updateDashboardKPIs present r (showLoading pg))))"

section \<open>Properties of the training scheduler\<close>

lemma wf_new: "0 < h0 \<Longrightarrow> wf (MLTraining_new h0)"
  by (simp add: wf_def MLTraining_new_def)

lemma wf_cancel: "wf s \<Longrightarrow> wf (cancelInterval s)"
  by (auto simp: wf_def cancelInterval_def clearInterval_def split: option.splits)

lemma cancel_fields:
  "wf s \<Longrightarrow> trainingInterval (cancelInterval s) = None \<and> timers (cancelInterval s) = {}
     \<and> isTraining (cancelInterval s) = isTraining s
     \<and> currentEpoch (cancelInterval s) = currentEpoch s
     \<and> totalEpochs (cancelInterval s) = totalEpochs s
     \<and> modelData (cancelInterval s) = modelData s
     \<and> currentModel (cancelInterval s) = currentModel s
     \<and> nextTimer (cancelInterval s) = nextTimer s
     \<and> trace (cancelInterval s) = trace s"
  by (auto simp: wf_def cancelInterval_def clearInterval_def split: option.splits)

lemma wf_untrain: "wf s \<Longrightarrow> wf (cancelInterval (s\<lparr>isTraining := False\<rparr>))"
  by (auto simp: wf_def cancelInterval_def clearInterval_def split: option.splits)

lemma wf_log: "wf s \<Longrightarrow> wf (addTrainingLog m s)"
  by (simp add: wf_def addTrainingLog_def)

lemma wf_alert: "wf s \<Longrightarrow> wf (showAlert m k s)"
  by (simp add: wf_def showAlert_def)

lemma wf_start: "wf s \<Longrightarrow> wf (startTraining s)"
  by (auto simp: wf_def startTraining_def setInterval_def addTrainingLog_def Let_def split: option.splits)

lemma wf_pause: "wf s \<Longrightarrow> wf (pauseTraining s)"
  by (simp add: pauseTraining_def wf_log wf_cancel)

lemma wf_stop: "wf s \<Longrightarrow> wf (stopTraining s)"
  by (simp add: stopTraining_def wf_log wf_untrain)

lemma wf_complete: "wf s \<Longrightarrow> wf (completeTraining s)"
  by (simp add: completeTraining_def Let_def wf_alert wf_log wf_untrain)

lemma wf_epoch_body:
  "wf s \<Longrightarrow> wf (s\<lparr>currentEpoch := e, modelData := d\<rparr>)"
  by (simp add: wf_def)

lemma wf_simulate: "wf s \<Longrightarrow> wf (simulateTrainingEpoch ra rl s)"
  by (simp add: simulateTrainingEpoch_def Let_def wf_complete wf_log wf_epoch_body)

lemma wf_step: "wf s \<Longrightarrow> wf (step e s)"
  by (cases e) (simp_all add: wf_start wf_pause wf_stop wf_simulate fire_def selectModel_def setEpochs_def, simp_all add: wf_def)

lemma reachable_wf: "reachable s \<Longrightarrow> wf s"
  by (induction rule: reachable.induct) (simp_all add: wf_new wf_step)

lemma completions_log: "completions (addTrainingLog m s) = completions s"
  by (simp add: completions_def addTrainingLog_def)

lemma simulate_modelData:
  "modelData (simulateTrainingEpoch ra rl s) =
     (modelData s)(currentModel s :=
        (modelData s (currentModel s))
          \<lparr>accuracy := accuracy (modelData s (currentModel s)) @
             [min 0.98 (last (accuracy (modelData s (currentModel s))) + (ra - 0.3) * 0.01)],
           loss := loss (modelData s (currentModel s)) @
             [max 0.1 (last (loss (modelData s (currentModel s))) + (rl - 0.7) * 0.05)]\<rparr>)"
  by (simp add: simulateTrainingEpoch_def Let_def completeTraining_def cancelInterval_def
      clearInterval_def addTrainingLog_def showAlert_def split: option.splits)

lemma simulate_stable:
  "currentEpoch (simulateTrainingEpoch ra rl s) = Suc (currentEpoch s) \<and>
   totalEpochs (simulateTrainingEpoch ra rl s) = totalEpochs s \<and>
   currentModel (simulateTrainingEpoch ra rl s) = currentModel s \<and>
   nextTimer (simulateTrainingEpoch ra rl s) = nextTimer s"
  by (simp add: simulateTrainingEpoch_def Let_def completeTraining_def cancelInterval_def
      clearInterval_def addTrainingLog_def showAlert_def split: option.splits)

lemma simulate_continue:
  assumes "\<not> epochsReached (Suc (currentEpoch s)) (totalEpochs s)"
  shows "isTraining (simulateTrainingEpoch ra rl s) = isTraining s \<and>
         trainingInterval (simulateTrainingEpoch ra rl s) = trainingInterval s \<and>
         timers (simulateTrainingEpoch ra rl s) = timers s \<and>
         completions (simulateTrainingEpoch ra rl s) = completions s"
  using assms
  by (simp add: simulateTrainingEpoch_def Let_def addTrainingLog_def completions_def)

lemma simulate_complete:
  assumes "wf s" and "epochsReached (Suc (currentEpoch s)) (totalEpochs s)"
  shows "\<not> isTraining (simulateTrainingEpoch ra rl s) \<and>
         trainingInterval (simulateTrainingEpoch ra rl s) = None \<and>
         timers (simulateTrainingEpoch ra rl s) = {} \<and>
         completions (simulateTrainingEpoch ra rl s) = Suc (completions s)"
  using assms
  by (auto simp: simulateTrainingEpoch_def Let_def addTrainingLog_def completions_def
      completeTraining_def showAlert_def cancelInterval_def clearInterval_def wf_def
      split: option.splits)

lemma tick_running:
  "wf s \<Longrightarrow> trainingInterval s = Some h \<Longrightarrow> tick ra rl s = simulateTrainingEpoch ra rl s"
  by (simp add: tick_def wf_def fire_def)

lemma tick_suspended:
  "wf s \<Longrightarrow> trainingInterval s = None \<Longrightarrow> tick ra rl s = s"
  by (simp add: tick_def wf_def)

lemma wf_tick: "wf s \<Longrightarrow> wf (tick ra rl s)"
  by (cases "trainingInterval s") (simp_all add: tick_running tick_suspended wf_simulate)

lemma ticks_suspended:
  "wf s \<Longrightarrow> trainingInterval s = None \<Longrightarrow> ticks ds s = s"
  by (induction ds arbitrary: s) (auto simp: tick_suspended)

lemma tick_continue:
  assumes "wf s" and "trainingInterval s = Some h"
    and "\<not> epochsReached (Suc (currentEpoch s)) (totalEpochs s)"
  shows "isTraining (tick ra rl s) = isTraining s"
    and "trainingInterval (tick ra rl s) = Some h"
    and "timers (tick ra rl s) = {h}"
    and "completions (tick ra rl s) = completions s"
    and "currentEpoch (tick ra rl s) = Suc (currentEpoch s)"
    and "totalEpochs (tick ra rl s) = totalEpochs s"
  using assms simulate_continue[of s ra rl] simulate_stable[of ra rl s]
  by (simp_all add: tick_running, simp add: wf_def)

lemma tick_complete:
  assumes "wf s" and "trainingInterval s = Some h"
    and "epochsReached (Suc (currentEpoch s)) (totalEpochs s)"
  shows "\<not> isTraining (tick ra rl s)"
    and "trainingInterval (tick ra rl s) = None"
    and "timers (tick ra rl s) = {}"
    and "completions (tick ra rl s) = Suc (completions s)"
    and "currentEpoch (tick ra rl s) = Suc (currentEpoch s)"
  using assms simulate_complete[of s ra rl] simulate_stable[of ra rl s]
  by (simp_all add: tick_running)

lemma ticks_training:
  assumes "wf s" and "trainingInterval s = Some h" and "totalEpochs s = Some 100"
    and "currentEpoch s = e" and "e < 100"
  shows "completions (ticks ds s) = completions s + (if 100 \<le> e + length ds then 1 else 0) \<and>
         currentEpoch (ticks ds s) = min 100 (e + length ds) \<and>
         (100 \<le> e + length ds \<longrightarrow>
            \<not> isTraining (ticks ds s) \<and> trainingInterval (ticks ds s) = None \<and> timers (ticks ds s) = {}) \<and>
         (e + length ds < 100 \<longrightarrow>
            isTraining (ticks ds s) \<and> trainingInterval (ticks ds s) = Some h \<and> timers (ticks ds s) = {h})"
  using assms
proof (induction ds arbitrary: s e)
  case Nil
  then show ?case by (simp add: wf_def)
next
  case (Cons d ds)
  obtain ra rl where d: "d = (ra, rl)" by (cases d)
  let ?t = "tick ra rl s"
  have wft: "wf ?t" using Cons.prems by (simp add: wf_tick)
  show ?case
  proof (cases "Suc e < 100")
    case True
    then have nr: "\<not> epochsReached (Suc (currentEpoch s)) (totalEpochs s)"
      using Cons.prems by (simp add: epochsReached_def)
    note c = tick_continue[OF Cons.prems(1,2) nr, of ra rl]
    have p: "trainingInterval ?t = Some h" "totalEpochs ?t = Some 100" "currentEpoch ?t = Suc e"
      using c Cons.prems by simp_all
    have "completions (ticks ds ?t) = completions ?t + (if 100 \<le> Suc e + length ds then 1 else 0) \<and>
         currentEpoch (ticks ds ?t) = min 100 (Suc e + length ds) \<and>
         (100 \<le> Suc e + length ds \<longrightarrow>
            \<not> isTraining (ticks ds ?t) \<and> trainingInterval (ticks ds ?t) = None \<and> timers (ticks ds ?t) = {}) \<and>
         (Suc e + length ds < 100 \<longrightarrow>
            isTraining (ticks ds ?t) \<and> trainingInterval (ticks ds ?t) = Some h \<and> timers (ticks ds ?t) = {h})"
      by (rule Cons.IH[OF wft p True])
    then show ?thesis using c(4) d by simp
  next
    case False
    with Cons.prems have e: "e = 99" by simp
    then have r: "epochsReached (Suc (currentEpoch s)) (totalEpochs s)"
      using Cons.prems by (simp add: epochsReached_def)
    note c = tick_complete[OF Cons.prems(1,2) r, of ra rl]
    have "ticks ds ?t = ?t" using wft c(2) by (rule ticks_suspended)
    then show ?thesis
      using c d e Cons.prems by simp
  qed
qed

lemma reachable_oneEpochRun: "reachable oneEpochRun"
  unfolding oneEpochRun_def by (intro reachable_step reachable_new) simp

lemma start_fields:
  assumes "\<not> isTraining s"
  shows "isTraining (startTraining s) \<and> currentEpoch (startTraining s) = 0 \<and>
         trainingInterval (startTraining s) = Some (nextTimer s) \<and>
         timers (startTraining s) = insert (nextTimer s) (timers s) \<and>
         totalEpochs (startTraining s) = totalEpochs s \<and>
         modelData (startTraining s) = modelData s \<and>
         currentModel (startTraining s) = currentModel s \<and>
         completions (startTraining s) = completions s"
  using assms
  by (simp add: startTraining_def Let_def setInterval_def addTrainingLog_def completions_def)

lemma start_training_noop: "isTraining s \<Longrightarrow> startTraining s = s"
  by (simp add: startTraining_def)

lemma pause_fields:
  assumes "wf s" and "isTraining s"
  shows "isTraining (pauseTraining s) \<and> currentEpoch (pauseTraining s) = currentEpoch s \<and>
         trainingInterval (pauseTraining s) = None \<and> timers (pauseTraining s) = {} \<and>
         totalEpochs (pauseTraining s) = totalEpochs s \<and>
         modelData (pauseTraining s) = modelData s \<and>
         currentModel (pauseTraining s) = currentModel s \<and>
         nextTimer (pauseTraining s) = nextTimer s \<and>
         trace (pauseTraining s) = trace s @ [TrainingLog Paused]"
  using assms cancel_fields[of s]
  by (simp add: pauseTraining_def addTrainingLog_def)

lemma pause_idle: "\<not> isTraining s \<Longrightarrow> pauseTraining s = s"
  by (simp add: pauseTraining_def)

lemma stop_fields:
  assumes "wf s"
  shows "\<not> isTraining (stopTraining s) \<and> currentEpoch (stopTraining s) = currentEpoch s \<and>
         trainingInterval (stopTraining s) = None \<and> timers (stopTraining s) = {} \<and>
         totalEpochs (stopTraining s) = totalEpochs s \<and>
         modelData (stopTraining s) = modelData s \<and>
         currentModel (stopTraining s) = currentModel s \<and>
         nextTimer (stopTraining s) = nextTimer s \<and>
         trace (stopTraining s) = trace s @ [TrainingLog Stopped]"
  using assms
  by (auto simp: stopTraining_def addTrainingLog_def cancelInterval_def clearInterval_def wf_def
      split: option.splits)

lemma tick_appends:
  assumes "wf s" and "trainingInterval s = Some h"
  shows "length (accuracy (modelData (tick ra rl s) k)) =
           length (accuracy (modelData s k)) + (if k = currentModel s then 1 else 0) \<and>
         length (loss (modelData (tick ra rl s) k)) =
           length (loss (modelData s k)) + (if k = currentModel s then 1 else 0)"
  using assms by (simp add: tick_running simulate_modelData)

lemma tick_epoch_appended:
  assumes "wf s"
  shows "length (accuracy (modelData (tick ra rl s) (currentModel s))) + currentEpoch s =
           length (accuracy (modelData s (currentModel s))) + currentEpoch (tick ra rl s) \<and>
         length (loss (modelData (tick ra rl s) (currentModel s))) + currentEpoch s =
           length (loss (modelData s (currentModel s))) + currentEpoch (tick ra rl s) \<and>
         currentModel (tick ra rl s) = currentModel s"
proof (cases "trainingInterval s")
  case None
  then show ?thesis using assms by (simp add: tick_suspended)
next
  case (Some h)
  then show ?thesis
    using assms simulate_stable[of ra rl s] by (simp add: tick_running simulate_modelData)
qed

lemma ticks_epoch_appended:
  assumes "wf s"
  shows "length (accuracy (modelData (ticks ds s) (currentModel s))) + currentEpoch s =
           length (accuracy (modelData s (currentModel s))) + currentEpoch (ticks ds s) \<and>
         length (loss (modelData (ticks ds s) (currentModel s))) + currentEpoch s =
           length (loss (modelData s (currentModel s))) + currentEpoch (ticks ds s) \<and>
         currentModel (ticks ds s) = currentModel s"
  using assms
proof (induction ds arbitrary: s)
  case Nil
  then show ?case by simp
next
  case (Cons d ds)
  obtain ra rl where d: "d = (ra, rl)" by (cases d)
  have w: "wf (tick ra rl s)" using Cons.prems by (rule wf_tick)
  from Cons.IH[OF w] tick_epoch_appended[OF Cons.prems, of ra rl] d
  show ?case by simp
qed


text \<open>
  Claim C1. A scheduler that is not training and whose target is 100 epochs is
  started and then driven by ticks, each tick being the interval timer coming
  due. Whatever the random draws, the completion callback \<open>completeTraining\<close>
  runs on the 100th tick and on no other: after fewer than 100 ticks it has
  not run and the timer is active; after 100 or more ticks it has run exactly
  once, the timer is cleared and \<open>isTraining\<close> is false, and the epoch
  counter and the metric arrays stay where the 100th tick left them, since the
  later ticks find no timer to fire.
\<close>

theorem training_completes_once_at_target:
  assumes "reachable s" and "\<not> isTraining s" and "totalEpochs s = Some 100"
  shows "completions (ticks ds (startTraining s)) =
           completions s + (if 100 \<le> length ds then 1 else 0) \<and>
         currentEpoch (ticks ds (startTraining s)) = min 100 (length ds) \<and>
         length (accuracy (modelData (ticks ds (startTraining s)) (currentModel s))) =
           length (accuracy (modelData s (currentModel s))) + min 100 (length ds) \<and>
         length (loss (modelData (ticks ds (startTraining s)) (currentModel s))) =
           length (loss (modelData s (currentModel s))) + min 100 (length ds) \<and>
         (100 \<le> length ds \<longrightarrow>
            \<not> isTraining (ticks ds (startTraining s)) \<and>
            trainingInterval (ticks ds (startTraining s)) = None \<and>
            timers (ticks ds (startTraining s)) = {}) \<and>
         (length ds < 100 \<longrightarrow>
            isTraining (ticks ds (startTraining s)) \<and>
            timers (ticks ds (startTraining s)) = {nextTimer s})"
proof -
  let ?s0 = "startTraining s"
  have w: "wf ?s0" using assms(1) by (simp add: reachable_wf wf_start)
  note f = start_fields[OF assms(2)]
  have ti: "trainingInterval ?s0 = Some (nextTimer s)" using f by simp
  have te: "totalEpochs ?s0 = Some 100" using f assms(3) by simp
  have ce: "currentEpoch ?s0 = 0" using f by simp
  have z: "(0::nat) < 100" by simp
  from ticks_training[OF w ti te ce z, of ds] ticks_epoch_appended[OF w, of ds] f
  show ?thesis by simp
qed

theorem training_completes_once_at_target_witness:
  "reachable (MLTraining_new 1) \<and> \<not> isTraining (MLTraining_new 1) \<and>
   totalEpochs (MLTraining_new 1) = Some 100 \<and>
   completions (ticks (replicate 99 (1/2, 1/2)) (startTraining (MLTraining_new 1))) = 0 \<and>
   completions (ticks (replicate 100 (1/2, 1/2)) (startTraining (MLTraining_new 1))) = 1 \<and>
   completions (ticks (replicate 250 (1/2, 1/2)) (startTraining (MLTraining_new 1))) = 1 \<and>
   currentEpoch (ticks (replicate 250 (1/2, 1/2)) (startTraining (MLTraining_new 1))) = 100 \<and>
   timers (ticks (replicate 250 (1/2, 1/2)) (startTraining (MLTraining_new 1))) = {}"
proof -
  have r: "reachable (MLTraining_new 1)" by (rule reachable_new) simp
  have i: "\<not> isTraining (MLTraining_new 1)" by (simp add: MLTraining_new_def)
  have t: "totalEpochs (MLTraining_new 1) = Some 100" by (simp add: MLTraining_new_def)
  have c: "completions (MLTraining_new 1) = 0" by (simp add: MLTraining_new_def completions_def)
  show ?thesis
    using r i t c
      training_completes_once_at_target[OF r i t, of "replicate 99 (1/2, 1/2)"]
      training_completes_once_at_target[OF r i t, of "replicate 100 (1/2, 1/2)"]
      training_completes_once_at_target[OF r i t, of "replicate 250 (1/2, 1/2)"]
    by simp
qed

lemma oneEpochRun_fields:
  "isTraining oneEpochRun \<and> currentEpoch oneEpochRun = 1 \<and> timers oneEpochRun = {1} \<and>
   trainingInterval oneEpochRun = Some 1"
proof -
  let ?n = "MLTraining_new 1"
  have n: "\<not> isTraining ?n" "nextTimer ?n = 1" "timers ?n = {}" "totalEpochs ?n = Some 100"
    by (simp_all add: MLTraining_new_def)
  have w: "wf (startTraining ?n)" by (simp add: wf_start wf_new)
  note f = start_fields[OF n(1)]
  have ti: "trainingInterval (startTraining ?n) = Some 1" using f n by simp
  have nr: "\<not> epochsReached (Suc (currentEpoch (startTraining ?n))) (totalEpochs (startTraining ?n))"
    using f n by (simp add: epochsReached_def)
  have t: "tick (1/2) (1/2) (startTraining ?n) = fire 1 (1/2) (1/2) (startTraining ?n)"
    using f n by (simp add: tick_def)
  from tick_continue[OF w ti nr, of "1/2" "1/2"] f t
  show ?thesis by (simp add: oneEpochRun_def)
qed

lemma suspended_no_timer: "wf s \<Longrightarrow> \<not> isTraining s \<Longrightarrow> trainingInterval s = None \<and> timers s = {}"
  by (cases "trainingInterval s") (auto simp: wf_def)


text \<open>
  Claim C2 as stated fails where it says that \<open>pause()\<close> followed by
  \<open>start()\<close> resumes periodic firing. \<open>pauseTraining\<close> clears the timer
  and leaves \<open>isTraining\<close> set, so \<open>startTraining\<close> returns at its guard:
  in the running scheduler \<open>oneEpochRun\<close> (one epoch done, timer 1 active)
  pause and start leave no timer, and a further interval changes nothing.
\<close>

theorem pause_start_no_resume_counterexample:
  "reachable oneEpochRun \<and> isTraining oneEpochRun \<and> timers oneEpochRun = {1} \<and>
   currentEpoch oneEpochRun = 1 \<and>
   timers (startTraining (pauseTraining oneEpochRun)) = {} \<and>
   tick (1/2) (1/2) (startTraining (pauseTraining oneEpochRun)) =
     startTraining (pauseTraining oneEpochRun)"
proof -
  have w: "wf oneEpochRun" using reachable_oneEpochRun by (rule reachable_wf)
  have i: "isTraining oneEpochRun" using oneEpochRun_fields by simp
  note p = pause_fields[OF w i]
  have s: "startTraining (pauseTraining oneEpochRun) = pauseTraining oneEpochRun"
    using p by (simp add: start_training_noop)
  have "tick (1/2) (1/2) (pauseTraining oneEpochRun) = pauseTraining oneEpochRun"
    using p w by (simp add: tick_suspended wf_pause)
  then show ?thesis using s p oneEpochRun_fields reachable_oneEpochRun by simp
qed

text \<open>
  Claim C2, amended. In every reachable state: \<open>stop()\<close> then \<open>start()\<close>
  gives a training scheduler with epoch counter 0 and exactly one active
  timer, whose next tick makes the counter 1. \<open>pause()\<close> then \<open>start()\<close>
  on a scheduler with \<open>isTraining\<close> set keeps the counter at its value
  before the pause and does not resume firing: no timer is active and an
  interval changes nothing. On a scheduler with \<open>isTraining\<close> clear, pause
  does nothing and start begins a new run from counter 0.
\<close>

theorem pause_then_start_and_stop_then_start:
  assumes "reachable s"
  shows "(isTraining s \<longrightarrow>
            currentEpoch (startTraining (pauseTraining s)) = currentEpoch s \<and>
            timers (startTraining (pauseTraining s)) = {} \<and>
            tick ra rl (startTraining (pauseTraining s)) = startTraining (pauseTraining s)) \<and>
         (\<not> isTraining s \<longrightarrow>
            startTraining (pauseTraining s) = startTraining s \<and>
            currentEpoch (startTraining (pauseTraining s)) = 0 \<and>
            timers (startTraining (pauseTraining s)) = {nextTimer s}) \<and>
         isTraining (startTraining (stopTraining s)) \<and>
         currentEpoch (startTraining (stopTraining s)) = 0 \<and>
         timers (startTraining (stopTraining s)) = {nextTimer s} \<and>
         currentEpoch (tick ra rl (startTraining (stopTraining s))) = 1"
proof -
  have w: "wf s" using assms by (rule reachable_wf)
  have a: "currentEpoch (startTraining (pauseTraining s)) = currentEpoch s \<and>
            timers (startTraining (pauseTraining s)) = {} \<and>
            tick ra rl (startTraining (pauseTraining s)) = startTraining (pauseTraining s)"
    if i: "isTraining s"
  proof -
    note p = pause_fields[OF w i]
    have s: "startTraining (pauseTraining s) = pauseTraining s"
      using p by (simp add: start_training_noop)
    have "tick ra rl (pauseTraining s) = pauseTraining s"
      using p w by (simp add: tick_suspended wf_pause)
    then show ?thesis using s p by simp
  qed
  have b: "startTraining (pauseTraining s) = startTraining s \<and>
            currentEpoch (startTraining (pauseTraining s)) = 0 \<and>
            timers (startTraining (pauseTraining s)) = {nextTimer s}"
    if i: "\<not> isTraining s"
  proof -
    have "timers s = {}" using w i by (cases "trainingInterval s") (auto simp: wf_def)
    then show ?thesis using start_fields[OF i] i by (simp add: pause_idle)
  qed
  note st = stop_fields[OF w]
  have ns: "\<not> isTraining (stopTraining s)" using st by simp
  note f = start_fields[OF ns]
  have w2: "wf (startTraining (stopTraining s))" using w by (simp add: wf_stop wf_start)
  have ti: "trainingInterval (startTraining (stopTraining s)) = Some (nextTimer s)"
    using f st by simp
  have c: "currentEpoch (tick ra rl (startTraining (stopTraining s))) = 1"
    using f simulate_stable[of ra rl "startTraining (stopTraining s)"]
    by (simp add: tick_running[OF w2 ti])
  have d: "isTraining (startTraining (stopTraining s)) \<and>
         currentEpoch (startTraining (stopTraining s)) = 0 \<and>
         timers (startTraining (stopTraining s)) = {nextTimer s}"
    using f st by simp
  show ?thesis using a b c d by blast
qed

theorem pause_then_start_and_stop_then_start_witness:
  "reachable oneEpochRun \<and> isTraining oneEpochRun \<and> currentEpoch oneEpochRun = 1 \<and>
   currentEpoch (startTraining (pauseTraining oneEpochRun)) = 1 \<and>
   timers (startTraining (pauseTraining oneEpochRun)) = {} \<and>
   currentEpoch (startTraining (stopTraining oneEpochRun)) = 0 \<and>
   timers (startTraining (stopTraining oneEpochRun)) = {nextTimer oneEpochRun} \<and>
   reachable (MLTraining_new 1) \<and> \<not> isTraining (MLTraining_new 1) \<and>
   timers (startTraining (pauseTraining (MLTraining_new 1))) = {1}"
proof -
  have r: "reachable (MLTraining_new 1)" by (rule reachable_new) simp
  have n: "\<not> isTraining (MLTraining_new 1)" "nextTimer (MLTraining_new 1) = 1"
    by (simp_all add: MLTraining_new_def)
  note a = pause_then_start_and_stop_then_start[OF reachable_oneEpochRun, of "1/2" "1/2"]
  note b = pause_then_start_and_stop_then_start[OF r, of "1/2" "1/2"]
  have "timers (startTraining (pauseTraining (MLTraining_new 1))) = {1}"
    using b n by metis
  moreover have "currentEpoch (startTraining (pauseTraining oneEpochRun)) = 1 \<and>
     timers (startTraining (pauseTraining oneEpochRun)) = {}"
    using a oneEpochRun_fields by simp
  moreover have "currentEpoch (startTraining (stopTraining oneEpochRun)) = 0 \<and>
     timers (startTraining (stopTraining oneEpochRun)) = {nextTimer oneEpochRun}"
    using a by blast
  ultimately show ?thesis
    using reachable_oneEpochRun oneEpochRun_fields r n by simp
qed

text \<open>
  Claim C3 as stated fails where it says that \<open>stop()\<close> resets the counter:
  \<open>stopTraining\<close> never writes \<open>currentEpoch\<close>. Stopping \<open>oneEpochRun\<close>
  leaves the counter at 1.
\<close>

theorem stop_keeps_counter_counterexample:
  "reachable oneEpochRun \<and> timers oneEpochRun = {1} \<and> currentEpoch oneEpochRun = 1 \<and>
   currentEpoch (stopTraining oneEpochRun) \<noteq> 0"
proof -
  have w: "wf oneEpochRun" using reachable_oneEpochRun by (rule reachable_wf)
  from stop_fields[OF w] oneEpochRun_fields reachable_oneEpochRun show ?thesis by simp
qed

text \<open>
  Claim C3, amended. In every reachable state \<open>stop()\<close> suspends firing (no
  timer stays active, an interval changes nothing) and clears
  \<open>isTraining\<close>, and leaves the epoch counter unchanged; the counter is set to
  zero by the \<open>start()\<close> that follows. \<open>pause()\<close> suspends firing and
  leaves the counter unchanged.
\<close>

theorem stop_and_pause_suspend_keep_counter:
  assumes "reachable s"
  shows "timers (stopTraining s) = {} \<and> \<not> isTraining (stopTraining s) \<and>
         tick ra rl (stopTraining s) = stopTraining s \<and>
         currentEpoch (stopTraining s) = currentEpoch s \<and>
         currentEpoch (startTraining (stopTraining s)) = 0 \<and>
         timers (pauseTraining s) = {} \<and>
         tick ra rl (pauseTraining s) = pauseTraining s \<and>
         currentEpoch (pauseTraining s) = currentEpoch s"
proof -
  have w: "wf s" using assms by (rule reachable_wf)
  note st = stop_fields[OF w]
  have ns: "\<not> isTraining (stopTraining s)" using st by simp
  have a: "tick ra rl (stopTraining s) = stopTraining s"
    using st w by (simp add: tick_suspended wf_stop)
  have b: "currentEpoch (startTraining (stopTraining s)) = 0"
    using start_fields[OF ns] by simp
  have c: "timers (pauseTraining s) = {} \<and> trainingInterval (pauseTraining s) = None \<and>
           currentEpoch (pauseTraining s) = currentEpoch s"
  proof (cases "isTraining s")
    case True
    from pause_fields[OF w True] show ?thesis by simp
  next
    case False
    then show ?thesis using suspended_no_timer[OF w False] by (simp add: pause_idle)
  qed
  have d: "tick ra rl (pauseTraining s) = pauseTraining s"
    using c w by (simp add: tick_suspended wf_pause)
  show ?thesis using st a b c d by simp
qed

theorem stop_and_pause_suspend_keep_counter_witness:
  "reachable oneEpochRun \<and> currentEpoch oneEpochRun = 1 \<and>
   timers (stopTraining oneEpochRun) = {} \<and> currentEpoch (stopTraining oneEpochRun) = 1 \<and>
   currentEpoch (startTraining (stopTraining oneEpochRun)) = 0 \<and>
   timers (pauseTraining oneEpochRun) = {} \<and> currentEpoch (pauseTraining oneEpochRun) = 1"
  using stop_and_pause_suspend_keep_counter[OF reachable_oneEpochRun, of "1/2" "1/2"]
    reachable_oneEpochRun oneEpochRun_fields
  by simp

text \<open>
  Claim C4. In a reachable state whose timer is active (which implies
  \<open>isTraining\<close>), \<open>start()\<close> returns the state unchanged: the counter is
  not reset, the set of active timers is still the single timer held, and one
  interval after the call advances the counter by exactly one and pushes
  exactly one entry to each metric array of the current model, none to the
  arrays of the other models.
\<close>

theorem start_while_running_is_noop:
  assumes "reachable s" and "trainingInterval s = Some h"
  shows "isTraining s \<and> startTraining s = s \<and> timers (startTraining s) = {h} \<and>
         currentEpoch (tick ra rl (startTraining s)) = currentEpoch s + 1 \<and>
         (\<forall>k. length (accuracy (modelData (tick ra rl (startTraining s)) k)) =
                length (accuracy (modelData s k)) + (if k = currentModel s then 1 else 0) \<and>
              length (loss (modelData (tick ra rl (startTraining s)) k)) =
                length (loss (modelData s k)) + (if k = currentModel s then 1 else 0))"
proof -
  have w: "wf s" using assms(1) by (rule reachable_wf)
  have i: "isTraining s" and t: "timers s = {h}" using w assms(2) by (simp_all add: wf_def)
  have n: "startTraining s = s" using i by (rule start_training_noop)
  have e: "currentEpoch (tick ra rl s) = currentEpoch s + 1"
    using simulate_stable[of ra rl s] by (simp add: tick_running[OF w assms(2)])
  show ?thesis using i n t e tick_appends[OF w assms(2), of ra rl] by simp
qed

theorem start_while_running_is_noop_witness:
  "reachable oneEpochRun \<and> trainingInterval oneEpochRun = Some 1 \<and>
   startTraining oneEpochRun = oneEpochRun \<and> timers (startTraining oneEpochRun) = {1} \<and>
   currentEpoch (tick (1/2) (1/2) (startTraining oneEpochRun)) = 2"
  using start_while_running_is_noop[OF reachable_oneEpochRun, of 1 "1/2" "1/2"]
    reachable_oneEpochRun oneEpochRun_fields
  by (auto simp: numeral_2_eq_2)

text \<open>
  Claim C9. In a reachable state with no timer held (idle, paused, stopped or
  completed), \<open>pause()\<close> and \<open>stop()\<close> leave the epoch counter, the set of
  active timers, the timer field, the handle counter, the target, the selected
  model and the metric arrays as they were; both are total functions without
  an error branch. When moreover \<open>isTraining\<close> is clear, pause returns the
  state unchanged and stop changes nothing but the log, to which it adds its
  line. (On a paused scheduler stop also clears \<open>isTraining\<close>.)
\<close>

theorem pause_stop_when_not_running:
  assumes "reachable s" and "trainingInterval s = None"
  shows "currentEpoch (pauseTraining s) = currentEpoch s \<and>
         timers (pauseTraining s) = timers s \<and>
         trainingInterval (pauseTraining s) = None \<and>
         nextTimer (pauseTraining s) = nextTimer s \<and>
         isTraining (pauseTraining s) = isTraining s \<and>
         modelData (pauseTraining s) = modelData s \<and>
         currentModel (pauseTraining s) = currentModel s \<and>
         totalEpochs (pauseTraining s) = totalEpochs s \<and>
         currentEpoch (stopTraining s) = currentEpoch s \<and>
         timers (stopTraining s) = timers s \<and>
         trainingInterval (stopTraining s) = None \<and>
         nextTimer (stopTraining s) = nextTimer s \<and>
         modelData (stopTraining s) = modelData s \<and>
         currentModel (stopTraining s) = currentModel s \<and>
         totalEpochs (stopTraining s) = totalEpochs s \<and>
         (\<not> isTraining s \<longrightarrow>
            pauseTraining s = s \<and> stopTraining s = s\<lparr>trace := trace s @ [TrainingLog Stopped]\<rparr>)"
  using assms(2)
  by (simp add: pauseTraining_def stopTraining_def cancelInterval_def addTrainingLog_def)

theorem pause_stop_when_not_running_witness:
  "reachable (MLTraining_new 1) \<and> trainingInterval (MLTraining_new 1) = None \<and>
   pauseTraining (MLTraining_new 1) = MLTraining_new 1 \<and>
   currentEpoch (stopTraining (MLTraining_new 1)) = 0 \<and>
   timers (stopTraining (MLTraining_new 1)) = {} \<and>
   reachable (pauseTraining oneEpochRun) \<and> trainingInterval (pauseTraining oneEpochRun) = None \<and>
   currentEpoch (stopTraining (pauseTraining oneEpochRun)) = 1 \<and>
   currentEpoch (pauseTraining (pauseTraining oneEpochRun)) = 1"
proof -
  have r: "reachable (MLTraining_new 1)" by (rule reachable_new) simp
  have n: "trainingInterval (MLTraining_new 1) = None" "\<not> isTraining (MLTraining_new 1)"
    "currentEpoch (MLTraining_new 1) = 0" "timers (MLTraining_new 1) = {}"
    by (simp_all add: MLTraining_new_def)
  have r2: "reachable (pauseTraining oneEpochRun)"
    using reachable_step[OF reachable_oneEpochRun, of Pause] by simp
  have w: "wf oneEpochRun" using reachable_oneEpochRun by (rule reachable_wf)
  have i: "isTraining oneEpochRun" using oneEpochRun_fields by simp
  note p = pause_fields[OF w i]
  have n2: "trainingInterval (pauseTraining oneEpochRun) = None" using p by simp
  have a: "pauseTraining (MLTraining_new 1) = MLTraining_new 1 \<and>
    currentEpoch (stopTraining (MLTraining_new 1)) = 0 \<and>
    timers (stopTraining (MLTraining_new 1)) = {}"
    using pause_stop_when_not_running[OF r n(1)] n by simp
  have b: "currentEpoch (stopTraining (pauseTraining oneEpochRun)) = 1 \<and>
   currentEpoch (pauseTraining (pauseTraining oneEpochRun)) = 1"
    using pause_stop_when_not_running[OF r2 n2] p oneEpochRun_fields by simp
  show ?thesis using r n(1) r2 n2 a b by simp
qed


section \<open>Bounds of the simulated metrics\<close>

lemma seed_lengths: "length (accuracy (seedData k)) = 8 \<and> length (loss (seedData k)) = 8"
  by (cases k) (simp_all add: seedData_def)

lemma metrics_ok_new: "metrics_ok (MLTraining_new h0)"
  by (simp add: metrics_ok_def MLTraining_new_def appendedAccuracy_def appendedLoss_def)

lemma metrics_ok_cong:
  "modelData t = modelData s \<Longrightarrow> metrics_ok t = metrics_ok s"
  by (simp add: metrics_ok_def appendedAccuracy_def appendedLoss_def)

lemma metrics_ok_iff:
  "metrics_ok s \<longleftrightarrow>
     (\<forall>k. \<exists>as ls. accuracy (modelData s k) = accuracy (seedData k) @ as \<and>
          loss (modelData s k) = loss (seedData k) @ ls \<and>
          (\<forall>x \<in> set as. x \<le> 0.98) \<and> (\<forall>x \<in> set ls. 0.1 \<le> x))"
  (is "?l \<longleftrightarrow> ?r")
proof
  assume ?l
  then show ?r unfolding metrics_ok_def by blast
next
  assume r: ?r
  show ?l unfolding metrics_ok_def
  proof
    fix k
    from r obtain as ls where "accuracy (modelData s k) = accuracy (seedData k) @ as"
      "loss (modelData s k) = loss (seedData k) @ ls"
      "\<forall>x \<in> set as. x \<le> 0.98" "\<forall>x \<in> set ls. 0.1 \<le> x"
      by blast
    then show "accuracy (modelData s k) = accuracy (seedData k) @ appendedAccuracy s k \<and>
          loss (modelData s k) = loss (seedData k) @ appendedLoss s k \<and>
          (\<forall>x \<in> set (appendedAccuracy s k). x \<le> 0.98) \<and>
          (\<forall>x \<in> set (appendedLoss s k). 0.1 \<le> x)"
      by (simp add: appendedAccuracy_def appendedLoss_def)
  qed
qed

lemma metrics_ok_simulate:
  assumes "metrics_ok s"
  shows "metrics_ok (simulateTrainingEpoch ra rl s)"
  unfolding metrics_ok_iff
proof
  fix k
  let ?s' = "simulateTrainingEpoch ra rl s"
  define na where "na = min 0.98 (last (accuracy (modelData s (currentModel s))) + (ra - 0.3) * 0.01)"
  define nl where "nl = max 0.1 (last (loss (modelData s (currentModel s))) + (rl - 0.7) * 0.05)"
  have bn: "na \<le> 0.98" "0.1 \<le> nl"
    unfolding na_def nl_def by (rule min.cobounded1, rule max.cobounded1)
  from assms obtain as ls where o: "accuracy (modelData s k) = accuracy (seedData k) @ as"
      "loss (modelData s k) = loss (seedData k) @ ls"
      "\<forall>x \<in> set as. x \<le> 0.98" "\<forall>x \<in> set ls. 0.1 \<le> x"
    unfolding metrics_ok_iff by blast
  have md: "modelData ?s' k =
      (if k = currentModel s
       then (modelData s k)\<lparr>accuracy := accuracy (modelData s k) @ [na],
                             loss := loss (modelData s k) @ [nl]\<rparr>
       else modelData s k)"
    by (simp add: simulate_modelData na_def nl_def)
  show "\<exists>as ls. accuracy (modelData ?s' k) = accuracy (seedData k) @ as \<and>
          loss (modelData ?s' k) = loss (seedData k) @ ls \<and>
          (\<forall>x \<in> set as. x \<le> 0.98) \<and> (\<forall>x \<in> set ls. 0.1 \<le> x)"
  proof (cases "k = currentModel s")
    case False
    then show ?thesis using o md by auto
  next
    case True
    have "accuracy (modelData ?s' k) = accuracy (seedData k) @ (as @ [na])"
      "loss (modelData ?s' k) = loss (seedData k) @ (ls @ [nl])"
      using True o md by simp_all
    moreover have "\<forall>x \<in> set (as @ [na]). x \<le> 0.98" "\<forall>x \<in> set (ls @ [nl]). 0.1 \<le> x"
      using o bn by auto
    ultimately show ?thesis by blast
  qed
qed

lemma metrics_ok_step: "metrics_ok s \<Longrightarrow> metrics_ok (step e s)"
proof (cases e)
  case Start
  assume "metrics_ok s"
  then show ?thesis using Start start_fields[of s] metrics_ok_cong[of "startTraining s" s]
    by (cases "isTraining s") (simp_all add: start_training_noop)
next
  case Pause
  assume "metrics_ok s"
  then show ?thesis using Pause
    by (simp add: metrics_ok_def appendedAccuracy_def appendedLoss_def pauseTraining_def
        addTrainingLog_def cancelInterval_def clearInterval_def split: option.splits)
next
  case Stop
  assume "metrics_ok s"
  then show ?thesis using Stop
    by (simp add: metrics_ok_def appendedAccuracy_def appendedLoss_def stopTraining_def
        addTrainingLog_def cancelInterval_def clearInterval_def split: option.splits)
next
  case (Fire h ra rl)
  assume "metrics_ok s"
  then show ?thesis using Fire by (simp add: fire_def metrics_ok_simulate)
next
  case (SelectModel k)
  assume "metrics_ok s"
  then show ?thesis using SelectModel
    by (simp add: metrics_ok_def appendedAccuracy_def appendedLoss_def selectModel_def)
next
  case (SetEpochs v)
  assume "metrics_ok s"
  then show ?thesis using SetEpochs
    by (simp add: metrics_ok_def appendedAccuracy_def appendedLoss_def setEpochs_def)
qed

lemma reachable_metrics_ok: "reachable s \<Longrightarrow> metrics_ok s"
  by (induction rule: reachable.induct) (simp_all add: metrics_ok_new metrics_ok_step)

lemma reachable_metrics_nonempty:
  assumes "reachable s"
  shows "accuracy (modelData s k) \<noteq> [] \<and> loss (modelData s k) \<noteq> []"
proof -
  have "metrics_ok s" using assms by (rule reachable_metrics_ok)
  then have "length (accuracy (modelData s k)) \<ge> 8 \<and> length (loss (modelData s k)) \<ge> 8"
    using seed_lengths[of k] unfolding metrics_ok_def
    by (metis length_append le_add1)
  then show ?thesis by auto
qed

text \<open>
  Claim C10. In every reachable state a simulated epoch, whatever the two
  random draws, pushes to the current model's arrays an accuracy that is the
  minimum of 0.98 and the stepped value, hence at most 0.98, and a loss that is
  the maximum of 0.1 and the stepped value, hence at least 0.1. Consequently
  in every reachable state the arrays of every model consist of the seed
  entries followed by pushed entries, every pushed accuracy is at most 0.98
  and every pushed loss is at least 0.1.
\<close>

theorem epoch_metrics_clamped:
  assumes "reachable s"
  shows "accuracy (modelData (simulateTrainingEpoch ra rl s) (currentModel s)) =
           accuracy (modelData s (currentModel s)) @
             [min 0.98 (last (accuracy (modelData s (currentModel s))) + (ra - 0.3) * 0.01)] \<and>
         loss (modelData (simulateTrainingEpoch ra rl s) (currentModel s)) =
           loss (modelData s (currentModel s)) @
             [max 0.1 (last (loss (modelData s (currentModel s))) + (rl - 0.7) * 0.05)] \<and>
         last (accuracy (modelData (simulateTrainingEpoch ra rl s) (currentModel s))) \<le> 0.98 \<and>
         0.1 \<le> last (loss (modelData (simulateTrainingEpoch ra rl s) (currentModel s))) \<and>
         (\<forall>k. accuracy (modelData s k) = accuracy (seedData k) @ appendedAccuracy s k \<and>
              loss (modelData s k) = loss (seedData k) @ appendedLoss s k \<and>
              (\<forall>x \<in> set (appendedAccuracy s k). x \<le> 0.98) \<and>
              (\<forall>x \<in> set (appendedLoss s k). 0.1 \<le> x))"
proof -
  define na where "na = min 0.98 (last (accuracy (modelData s (currentModel s))) + (ra - 0.3) * 0.01)"
  define nl where "nl = max 0.1 (last (loss (modelData s (currentModel s))) + (rl - 0.7) * 0.05)"
  have bn: "na \<le> 0.98" "0.1 \<le> nl"
    unfolding na_def nl_def by (rule min.cobounded1, rule max.cobounded1)
  have a: "accuracy (modelData (simulateTrainingEpoch ra rl s) (currentModel s)) =
           accuracy (modelData s (currentModel s)) @ [na]"
    and l: "loss (modelData (simulateTrainingEpoch ra rl s) (currentModel s)) =
           loss (modelData s (currentModel s)) @ [nl]"
    by (simp_all add: simulate_modelData na_def nl_def)
  have "metrics_ok s" using assms by (rule reachable_metrics_ok)
  then have m: "\<forall>k. accuracy (modelData s k) = accuracy (seedData k) @ appendedAccuracy s k \<and>
              loss (modelData s k) = loss (seedData k) @ appendedLoss s k \<and>
              (\<forall>x \<in> set (appendedAccuracy s k). x \<le> 0.98) \<and>
              (\<forall>x \<in> set (appendedLoss s k). 0.1 \<le> x)"
    unfolding metrics_ok_def .
  have "last (accuracy (modelData (simulateTrainingEpoch ra rl s) (currentModel s))) \<le> 0.98"
    "0.1 \<le> last (loss (modelData (simulateTrainingEpoch ra rl s) (currentModel s)))"
    using a l bn by simp_all
  then show ?thesis using a l m unfolding na_def nl_def by blast
qed

theorem epoch_metrics_clamped_witness:
  "reachable oneEpochRun \<and>
   last (accuracy (modelData (simulateTrainingEpoch 1 0 oneEpochRun) (currentModel oneEpochRun))) \<le> 0.98 \<and>
   0.1 \<le> last (loss (modelData (simulateTrainingEpoch 1 0 oneEpochRun) (currentModel oneEpochRun))) \<and>
   list_all (\<lambda>x. x \<le> 0.98) (appendedAccuracy oneEpochRun Otolith) \<and>
   list_all (\<lambda>x. 0.1 \<le> x) (appendedLoss oneEpochRun Otolith)"
  unfolding list_all_iff
  using epoch_metrics_clamped[OF reachable_oneEpochRun, of 1 0] reachable_oneEpochRun
  by blast

section \<open>Long runs of the training scheduler\<close>

lemma reachable_tick: "reachable s \<Longrightarrow> reachable (tick ra rl s)"
proof (cases "trainingInterval s")
  case None
  assume r: "reachable s"
  then show ?thesis using None by (simp add: tick_suspended reachable_wf)
next
  case (Some h)
  assume r: "reachable s"
  have w: "wf s" using r by (rule reachable_wf)
  have "h \<in> timers s" using w Some by (simp add: wf_def)
  then have "tick ra rl s = step (Fire h ra rl) s"
    using Some w by (simp add: tick_running fire_def)
  then show ?thesis using reachable_step[OF r, of "Fire h ra rl"] by simp
qed

lemma reachable_ticks: "reachable s \<Longrightarrow> reachable (ticks ds s)"
proof (induction ds arbitrary: s)
  case Nil
  then show ?case by simp
next
  case (Cons d ds)
  obtain ra rl where d: "d = (ra, rl)" by (cases d)
  show ?case using Cons.IH[OF reachable_tick[OF Cons.prems, of ra rl]] d by simp
qed

lemma ticks_below_target:
  assumes "wf s" and "trainingInterval s = Some h" and "totalEpochs s = Some (int T)"
    and "currentEpoch s + length ds < T"
  shows "currentEpoch (ticks ds s) = currentEpoch s + length ds"
  using assms
proof (induction ds arbitrary: s)
  case Nil
  then show ?case by simp
next
  case (Cons d ds)
  obtain ra rl where d: "d = (ra, rl)" by (cases d)
  have nr: "\<not> epochsReached (Suc (currentEpoch s)) (totalEpochs s)"
    using Cons.prems by (simp add: epochsReached_def)
  note c = tick_continue[OF Cons.prems(1,2) nr, of ra rl]
  have w: "wf (tick ra rl s)" using Cons.prems(1) by (rule wf_tick)
  have t: "totalEpochs (tick ra rl s) = Some (int T)" using c Cons.prems by simp
  have l: "currentEpoch (tick ra rl s) + length ds < T" using c Cons.prems by simp
  from Cons.IH[OF w c(2) t l] c d show ?case by simp
qed

lemma thousandEpochRun_lengths:
  "reachable thousandEpochRun \<and>
   length (accuracy (modelData thousandEpochRun Otolith)) = 1008 \<and>
   length (loss (modelData thousandEpochRun Otolith)) = 1008"
proof -
  let ?s1 = "step (SetEpochs (Some 2000)) (MLTraining_new 1)"
  let ?s2 = "startTraining ?s1"
  let ?ds = "replicate 1000 (1/2::real, 1/2::real)"
  have r1: "reachable ?s1" by (intro reachable_step reachable_new) simp
  have r2: "reachable ?s2" using reachable_step[OF r1, of Start] by simp
  have n: "\<not> isTraining ?s1" "totalEpochs ?s1 = Some 2000" "nextTimer ?s1 = 1"
    "currentModel ?s1 = Otolith" "modelData ?s1 = seedData"
    by (simp_all add: setEpochs_def MLTraining_new_def)
  note f = start_fields[OF n(1)]
  have w: "wf ?s2" using r2 by (rule reachable_wf)
  have ti: "trainingInterval ?s2 = Some 1" using f n by simp
  have te: "totalEpochs ?s2 = Some (int 2000)" using f n by simp
  have l: "currentEpoch ?s2 + length ?ds < 2000" using f by simp
  have e: "currentEpoch (ticks ?ds ?s2) = 1000"
    using ticks_below_target[OF w ti te l] f by simp
  have cm: "currentModel ?s2 = Otolith" using f n by simp
  have a: "length (accuracy (modelData (ticks ?ds ?s2) Otolith)) = 1008"
    and b: "length (loss (modelData (ticks ?ds ?s2) Otolith)) = 1008"
    using ticks_epoch_appended[OF w, of ?ds] e f n cm seed_lengths[of Otolith] by simp_all
  show ?thesis
    using reachable_ticks[OF r2, of ?ds] a b by (simp add: thousandEpochRun_def)
qed

lemma first_epoch_values:
  "last (accuracy (modelData (startTraining (MLTraining_new 1)) Otolith)) = 0.942 \<and>
   last (loss (modelData (startTraining (MLTraining_new 1)) Otolith)) = 0.32 \<and>
   oneEpochRun = tick (1/2) (1/2) (startTraining (MLTraining_new 1)) \<and>
   last (accuracy (modelData oneEpochRun Otolith)) = 0.944 \<and>
   last (loss (modelData oneEpochRun Otolith)) = 0.31"
proof -
  let ?n = "MLTraining_new 1"
  let ?s = "startTraining ?n"
  have n: "\<not> isTraining ?n" "nextTimer ?n = 1" "timers ?n = {}" "currentModel ?n = Otolith"
    "modelData ?n = seedData"
    by (simp_all add: MLTraining_new_def)
  note f = start_fields[OF n(1)]
  have md: "modelData ?s = seedData" "currentModel ?s = Otolith" using f n by simp_all
  have la: "last (accuracy (seedData Otolith)) = 0.942" "last (loss (seedData Otolith)) = 0.32"
    by (simp_all add: seedData_def)
  have w: "wf ?s" by (simp add: wf_start wf_new)
  have ti: "trainingInterval ?s = Some 1" using f n by simp
  have t: "tick (1/2) (1/2) ?s = simulateTrainingEpoch (1/2) (1/2) ?s"
    using w ti by (rule tick_running)
  have o: "oneEpochRun = simulateTrainingEpoch (1/2) (1/2) ?s"
    using f n by (simp add: oneEpochRun_def fire_def)
  have sm: "modelData (simulateTrainingEpoch (1/2) (1/2) ?s) Otolith =
      (seedData Otolith)
        \<lparr>accuracy := accuracy (seedData Otolith) @ [min 0.98 (0.942 + (1/2 - 0.3) * 0.01)],
         loss := loss (seedData Otolith) @ [max 0.1 (0.32 + (1/2 - 0.7) * 0.05)]\<rparr>"
    unfolding simulate_modelData md la by simp
  have r: "last (accuracy (modelData oneEpochRun Otolith)) = 0.944"
    "last (loss (modelData oneEpochRun Otolith)) = 0.31"
    unfolding o sm by simp_all
  have b: "last (accuracy (modelData ?s Otolith)) = 0.942"
    "last (loss (modelData ?s Otolith)) = 0.32"
    unfolding md la by (rule refl)+
  have ot: "oneEpochRun = tick (1/2) (1/2) ?s" unfolding o t by (rule refl)
  show ?thesis using b ot r by blast
qed

section \<open>Properties of the oceanographic buffers\<close>

lemma appendSample_drop:
  assumes "length data \<le> 1000"
  shows "appendSample x data = drop (length data + 1 - 1000) (data @ [x])"
proof (cases "length data = 1000")
  case True
  then have "data \<noteq> []" by auto
  then show ?thesis using True by (simp add: appendSample_def drop_Suc)
next
  case False
  with assms have "length data < 1000" by simp
  then show ?thesis by (simp add: appendSample_def)
qed

lemma appendSample_length:
  "length data \<le> 1000 \<Longrightarrow> length (appendSample x data) = min 1000 (length data + 1)"
  by (simp add: appendSample_drop)

lemma appendSample_last: "last (appendSample x data) = x"
proof (cases data)
  case Nil
  then show ?thesis by (simp add: appendSample_def)
next
  case (Cons a as)
  then show ?thesis by (simp add: appendSample_def Let_def)
qed

lemma appendSample_nonempty: "appendSample x data \<noteq> []"
  by (cases data) (simp_all add: appendSample_def Let_def)

lemma appendAll_drop:
  assumes "length data \<le> 1000"
  shows "appendAll xs data = drop (length data + length xs - 1000) (data @ xs)"
  using assms
proof (induction xs arbitrary: data)
  case Nil
  then show ?case by simp
next
  case (Cons x xs)
  let ?d = "appendSample x data"
  have len: "length ?d = min 1000 (length data + 1)" using Cons.prems by (rule appendSample_length)
  then have le: "length ?d \<le> 1000" by simp
  have ih: "appendAll xs ?d = drop (length ?d + length xs - 1000) (?d @ xs)"
    using Cons.IH[OF le] .
  have d: "?d = drop (length data + 1 - 1000) (data @ [x])"
    using Cons.prems by (rule appendSample_drop)
  show ?case
  proof (cases "length data = 1000")
    case True
    then have "?d @ xs = drop 1 (data @ x # xs)" using d by simp
    then show ?thesis using ih len True by simp
  next
    case False
    with Cons.prems have "length data < 1000" by simp
    then have "?d @ xs = data @ x # xs" using d by simp
    then show ?thesis using ih len \<open>length data < 1000\<close> by simp
  qed
qed

lemma updatesBuffer_appendAll:
  "updatesBuffer us data = appendAll (pushedSamples us data) data"
  by (induction us data rule: updatesBuffer.induct) (simp_all add: updateBuffer_def)

lemma length_pushedSamples: "length (pushedSamples us data) = length us"
  by (induction us data rule: pushedSamples.induct) simp_all

lemma length_loaded:
  "length (historicalData (loadHistoricalData now draws m) p) = hoursOf (forecastRange m)"
  by (simp add: loadHistoricalData_def Let_def)

lemma hoursOf_cases: "hoursOf r = 24 \<or> hoursOf r = 168 \<or> hoursOf r = 720"
  by (simp add: hoursOf_def)

lemma loaded_bounds:
  "historicalData (loadHistoricalData now draws m) p \<noteq> [] \<and>
   length (historicalData (loadHistoricalData now draws m) p) \<le> 1000"
proof -
  have "0 < hoursOf (forecastRange m) \<and> hoursOf (forecastRange m) \<le> 1000"
    using hoursOf_cases[of "forecastRange m"] by auto
  then show ?thesis using length_loaded[of now draws m p] by (metis length_greater_0_conv)
qed

lemma update_total:
  assumes "\<forall>p. historicalData m p \<noteq> []"
  shows "updateCurrentValues now draws m =
           Inr (m\<lparr>historicalData := (\<lambda>p. updateBuffer now (draws p) (historicalData m p))\<rparr>)"
  using assms by (simp add: updateCurrentValues_def list_ex_iff)

lemma ocean_buffers:
  assumes "oceanReachable m"
  shows "historicalData m p \<noteq> [] \<and> length (historicalData m p) \<le> 1000"
  using assms
proof (induction arbitrary: p rule: oceanReachable.induct)
  case (ocean_new now draws)
  show ?case unfolding OceanographicModule_new_def by (rule loaded_bounds)
next
  case (ocean_parameter m v now draws)
  show ?case unfolding parameterChanged_def by (rule loaded_bounds)
next
  case (ocean_station m v now draws)
  show ?case unfolding stationChanged_def by (rule loaded_bounds)
next
  case (ocean_range m v now draws)
  show ?case unfolding forecastRangeChanged_def by (rule loaded_bounds)
next
  case (ocean_update m now d m')
  have "\<forall>p. historicalData m p \<noteq> []" using ocean_update.IH by simp
  from update_total[OF this, of now d] ocean_update.hyps(2)
  have m': "m' = m\<lparr>historicalData := (\<lambda>p. updateBuffer now (d p) (historicalData m p))\<rparr>"
    by simp
  have "length (historicalData m p) \<le> 1000" using ocean_update.IH by simp
  then show ?case
    using m' appendSample_length[of "historicalData m p"] appendSample_nonempty
    by (simp add: updateBuffer_def)
qed

lemma historicalSample_noise:
  "value (historicalSample Temperature now h i d) =
     28.5 + sin (real i * 2 * pi / 24) * 1.5 + sin (real i * 2 * pi / (24 * 365)) * 2
       + (fst d - 1/2) * noiseAmplitude Temperature \<and>
   value (historicalSample Salinity now h i d) =
     34.2 + sin (real i * 2 * pi / (24 * 7)) * 0.5 + (fst d - 1/2) * noiseAmplitude Salinity \<and>
   value (historicalSample Chlorophyll now h i d) =
     max 0.1 (2.1 + sin (real i * 2 * pi / (24 * 30)) * 1.2
       + (fst d - 1/2) * noiseAmplitude Chlorophyll) \<and>
   value (historicalSample Ph now h i d) =
     8.1 + sin (real i * 2 * pi / (24 * 14)) * 0.15 + (fst d - 1/2) * noiseAmplitude Ph \<and>
   value (historicalSample Oxygen now h i d) =
     6.8 + sin (real i * 2 * pi / 24) * 0.8 + (fst d - 1/2) * noiseAmplitude Oxygen"
  by (simp add: historicalSample_def noiseAmplitude_def Let_def)

lemma reachable_sampleModule: "oceanReachable sampleModule"
  unfolding sampleModule_def by (rule ocean_new)

lemma liveSample_last: "liveSample now d data = liveSample now d [last data]"
  by (simp add: liveSample_def)

lemma updateBuffer_last: "last (updateBuffer now d data) = liveSample now d data"
  by (simp add: updateBuffer_def appendSample_last)

lemma pushedSamples_walk: "pushedSamples us data = randomWalk (last data) us"
proof (induction us data rule: pushedSamples.induct)
  case (1 data)
  then show ?case by simp
next
  case (2 now d us data)
  then show ?case
    using liveSample_last[of now d data] by (simp add: updateBuffer_last)
qed

lemma appendSample_alt:
  "appendSample x data = (if length data < 1000 then data else tl data) @ [x]"
proof (cases data)
  case Nil
  then show ?thesis by (simp add: appendSample_def)
next
  case (Cons a as)
  then show ?thesis by (simp add: appendSample_def Let_def)
qed

lemma updateBuffer_nonempty: "updateBuffer now d data \<noteq> []"
  by (simp add: updateBuffer_def appendSample_nonempty)

lemma updatesModule_buffers:
  assumes "\<forall>p. historicalData m p \<noteq> []"
  shows "updatesModule us m =
           Inr (m\<lparr>historicalData := (\<lambda>p. updatesBuffer (drawsFor p us) (historicalData m p))\<rparr>)"
  using assms
proof (induction us arbitrary: m)
  case Nil
  then show ?case by (simp add: drawsFor_def)
next
  case (Cons u us)
  obtain now draws where u: "u = (now, draws)" by (cases u)
  let ?m1 = "m\<lparr>historicalData := (\<lambda>p. updateBuffer now (draws p) (historicalData m p))\<rparr>"
  have s: "updateCurrentValues now draws m = Inr ?m1" using Cons.prems by (rule update_total)
  have ne: "\<forall>p. historicalData ?m1 p \<noteq> []" by (simp add: updateBuffer_nonempty)
  show ?case using Cons.IH[OF ne] s u by (simp add: drawsFor_def)
qed

lemma length_drawsFor: "length (drawsFor p us) = length us"
  by (simp add: drawsFor_def)


section \<open>The steps of the two interval callbacks\<close>

text \<open>
  Claim C5 as stated fails in two ways. The tick of the training simulation,
  the code the claim cites, does not add \<open>(r - 1/2) * amp\<close> to the latest
  value: with the draw \<open>r = 1/2\<close> that formula gives the latest value itself
  for every \<open>amp\<close>, while the first tick of a started scheduler pushes the
  accuracy 0.944 after the latest 0.942. The tick of the oceanographic module
  does not use the noise amplitude of the parameter: for temperature that is
  0.8, and with the draw \<open>r = 1\<close> the value pushed is the latest plus 0.1,
  not plus \<open>(1 - 1/2) * 0.8\<close>.
\<close>

theorem tick_step_counterexample:
  "last (accuracy (modelData (startTraining (MLTraining_new 1)) Otolith)) = 0.942 \<and>
   oneEpochRun = tick (1/2) (1/2) (startTraining (MLTraining_new 1)) \<and>
   last (accuracy (modelData oneEpochRun Otolith)) = 0.944 \<and>
   last (accuracy (modelData oneEpochRun Otolith)) \<noteq>
     last (accuracy (modelData (startTraining (MLTraining_new 1)) Otolith)) \<and>
   oceanReachable sampleModule \<and>
   noiseAmplitude Temperature = 0.8 \<and>
   updateCurrentValues 5 unitDraws sampleModule =
     Inr (sampleModule\<lparr>historicalData :=
            (\<lambda>p. updateBuffer 5 (unitDraws p) (historicalData sampleModule p))\<rparr>) \<and>
   value (last (updateBuffer 5 (unitDraws Temperature) (historicalData sampleModule Temperature))) =
     value (last (historicalData sampleModule Temperature)) + 1/10 \<and>
   value (last (updateBuffer 5 (unitDraws Temperature) (historicalData sampleModule Temperature))) \<noteq>
     value (last (historicalData sampleModule Temperature)) + (1 - 1/2) * noiseAmplitude Temperature"
proof -
  have ne: "\<forall>p. historicalData sampleModule p \<noteq> []"
    using ocean_buffers[OF reachable_sampleModule] by simp
  have u: "updateCurrentValues 5 unitDraws sampleModule =
     Inr (sampleModule\<lparr>historicalData :=
            (\<lambda>p. updateBuffer 5 (unitDraws p) (historicalData sampleModule p))\<rparr>)"
    using ne by (rule update_total)
  have v: "value (last (updateBuffer 5 (unitDraws Temperature) (historicalData sampleModule Temperature))) =
     value (last (historicalData sampleModule Temperature)) + 1/10"
    by (simp add: updateBuffer_last liveSample_def unitDraws_def Let_def)
  have n: "noiseAmplitude Temperature = 0.8" by (simp add: noiseAmplitude_def)
  have w: "value (last (updateBuffer 5 (unitDraws Temperature) (historicalData sampleModule Temperature))) \<noteq>
     value (last (historicalData sampleModule Temperature)) + (1 - 1/2) * noiseAmplitude Temperature"
    unfolding v n by simp
  have a: "last (accuracy (modelData oneEpochRun Otolith)) \<noteq>
     last (accuracy (modelData (startTraining (MLTraining_new 1)) Otolith))"
    using first_epoch_values by simp
  show ?thesis using first_epoch_values a reachable_sampleModule n u v w by blast
qed

text \<open>
  Claim C5, amended. In every reachable state of the oceanographic module the
  update never fails, and for each parameter the sample it leaves at the end
  of the buffer is stamped with the time of the update, its value is the
  latest stored value plus \<open>(r - 1/2) * 0.2\<close> for the first draw \<open>r\<close>, and
  its predicted value is that new value plus \<open>(r' - 1/2) * 0.1\<close> for the
  second draw: a random walk from the latest value, in which no index, time
  or sine enters. The amplitude 0.2 is a constant of the update, the same for
  every parameter and different from the noise amplitude of each. The tick of
  a running training scheduler is a different step: it pushes the minimum of
  0.98 and the latest accuracy plus \<open>(r - 0.3) * 0.01\<close>, and the maximum of
  0.1 and the latest loss plus \<open>(r' - 0.7) * 0.05\<close>.
\<close>

theorem incremental_tick_steps:
  assumes "oceanReachable m" and "reachable s" and "trainingInterval s = Some h"
  shows "updateCurrentValues now draws m =
           Inr (m\<lparr>historicalData := (\<lambda>p. updateBuffer now (draws p) (historicalData m p))\<rparr>) \<and>
         last (updateBuffer now (draws p) (historicalData m p)) =
           \<lparr>timestamp = now,
            value = value (last (historicalData m p)) + (fst (draws p) - 1/2) * 0.2,
            predicted = value (last (historicalData m p)) + (fst (draws p) - 1/2) * 0.2
                          + (snd (draws p) - 1/2) * 0.1\<rparr> \<and>
         noiseAmplitude p \<noteq> 0.2 \<and>
         accuracy (modelData (tick ra rl s) (currentModel s)) =
           accuracy (modelData s (currentModel s)) @
             [min 0.98 (last (accuracy (modelData s (currentModel s))) + (ra - 0.3) * 0.01)] \<and>
         loss (modelData (tick ra rl s) (currentModel s)) =
           loss (modelData s (currentModel s)) @
             [max 0.1 (last (loss (modelData s (currentModel s))) + (rl - 0.7) * 0.05)]"
proof -
  have "\<forall>p. historicalData m p \<noteq> []" using ocean_buffers[OF assms(1)] by simp
  then have a: "updateCurrentValues now draws m =
           Inr (m\<lparr>historicalData := (\<lambda>p. updateBuffer now (draws p) (historicalData m p))\<rparr>)"
    by (rule update_total)
  have b: "last (updateBuffer now (draws p) (historicalData m p)) =
           \<lparr>timestamp = now,
            value = value (last (historicalData m p)) + (fst (draws p) - 1/2) * 0.2,
            predicted = value (last (historicalData m p)) + (fst (draws p) - 1/2) * 0.2
                          + (snd (draws p) - 1/2) * 0.1\<rparr>"
    by (simp add: updateBuffer_last liveSample_def Let_def)
  have c: "noiseAmplitude p \<noteq> 0.2" by (cases p) (simp_all add: noiseAmplitude_def)
  have w: "wf s" using assms(2) by (rule reachable_wf)
  have t: "tick ra rl s = simulateTrainingEpoch ra rl s" using w assms(3) by (rule tick_running)
  have d: "accuracy (modelData (tick ra rl s) (currentModel s)) =
           accuracy (modelData s (currentModel s)) @
             [min 0.98 (last (accuracy (modelData s (currentModel s))) + (ra - 0.3) * 0.01)]"
    and e: "loss (modelData (tick ra rl s) (currentModel s)) =
           loss (modelData s (currentModel s)) @
             [max 0.1 (last (loss (modelData s (currentModel s))) + (rl - 0.7) * 0.05)]"
    unfolding t by (simp_all add: simulate_modelData)
  show ?thesis using a b c d e by blast
qed

theorem incremental_tick_steps_witness:
  "oceanReachable sampleModule \<and> reachable oneEpochRun \<and> trainingInterval oneEpochRun = Some 1 \<and>
   value (last (updateBuffer 5 (1, 0) (historicalData sampleModule Salinity))) =
     value (last (historicalData sampleModule Salinity)) + 1/10 \<and>
   noiseAmplitude Salinity \<noteq> 0.2 \<and>
   accuracy (modelData (tick 1 0 oneEpochRun) (currentModel oneEpochRun)) =
     accuracy (modelData oneEpochRun (currentModel oneEpochRun)) @
       [min 0.98 (last (accuracy (modelData oneEpochRun (currentModel oneEpochRun))) + (1 - 0.3) * 0.01)]"
proof -
  have ti: "trainingInterval oneEpochRun = Some 1" using oneEpochRun_fields by simp
  note t = incremental_tick_steps[OF reachable_sampleModule reachable_oneEpochRun ti,
      of 5 "\<lambda>p. (1, 0)" Salinity 1 0]
  have "last (updateBuffer 5 (1, 0) (historicalData sampleModule Salinity)) =
           \<lparr>timestamp = 5,
            value = value (last (historicalData sampleModule Salinity)) + (1 - 1/2) * 0.2,
            predicted = value (last (historicalData sampleModule Salinity)) + (1 - 1/2) * 0.2
                          + (0 - 1/2) * 0.1\<rparr>"
    using t by simp
  then have v: "value (last (updateBuffer 5 (1, 0) (historicalData sampleModule Salinity))) =
     value (last (historicalData sampleModule Salinity)) + 1/10"
    by simp
  have n: "noiseAmplitude Salinity \<noteq> 0.2" using t by blast
  have a: "accuracy (modelData (tick 1 0 oneEpochRun) (currentModel oneEpochRun)) =
     accuracy (modelData oneEpochRun (currentModel oneEpochRun)) @
       [min 0.98 (last (accuracy (modelData oneEpochRun (currentModel oneEpochRun))) + (1 - 0.3) * 0.01)]"
    using t by blast
  show ?thesis using reachable_sampleModule reachable_oneEpochRun ti v n a by blast
qed

section \<open>Retention\<close>

text \<open>
  Claim C6 as stated fails for the metric arrays of the training simulation,
  to which \<open>simulateTrainingEpoch\<close> pushes and from which nothing is ever
  removed: after the 1000 pushes of \<open>thousandEpochRun\<close> the accuracy and loss
  arrays of the model hold 1008 entries, the eight seed entries still in
  front.
\<close>

theorem metric_arrays_keep_all_counterexample:
  "reachable thousandEpochRun \<and>
   length (accuracy (modelData thousandEpochRun Otolith)) = 1008 \<and>
   length (loss (modelData thousandEpochRun Otolith)) = 1008 \<and>
   take 8 (accuracy (modelData thousandEpochRun Otolith)) = accuracy (seedData Otolith) \<and>
   take 8 (loss (modelData thousandEpochRun Otolith)) = loss (seedData Otolith)"
proof -
  have r: "reachable thousandEpochRun" using thousandEpochRun_lengths by simp
  have "metrics_ok thousandEpochRun" using r by (rule reachable_metrics_ok)
  then have "accuracy (modelData thousandEpochRun Otolith) =
      accuracy (seedData Otolith) @ appendedAccuracy thousandEpochRun Otolith"
    "loss (modelData thousandEpochRun Otolith) =
      loss (seedData Otolith) @ appendedLoss thousandEpochRun Otolith"
    unfolding metrics_ok_def by blast+
  then have "take 8 (accuracy (modelData thousandEpochRun Otolith)) = accuracy (seedData Otolith)"
    "take 8 (loss (modelData thousandEpochRun Otolith)) = loss (seedData Otolith)"
    using seed_lengths[of Otolith] by (metis append_eq_conv_conj)+
  then show ?thesis using thousandEpochRun_lengths by blast
qed

text \<open>
  Claim C6, amended. For the buffers of the oceanographic module, the only
  series with a cap: in every reachable state each buffer holds at most 1000
  samples; one update pushes the new sample at the end of every buffer and
  removes the oldest sample of a buffer that already held 1000; and after
  \<open>1000 + k\<close> updates each buffer holds exactly 1000 samples, namely the last
  1000 samples of the random walk that the updates pushed, in the order in
  which they were pushed. The metric arrays of the training simulation are
  not capped.
\<close>

theorem ocean_buffers_keep_last_1000:
  assumes "oceanReachable m" and "length us = 1000 + k"
  shows "length (historicalData m p) \<le> 1000 \<and>
         updateCurrentValues now draws m =
           Inr (m\<lparr>historicalData :=
                  (\<lambda>q. (if length (historicalData m q) < 1000 then historicalData m q
                        else tl (historicalData m q))
                       @ [liveSample now (draws q) (historicalData m q)])\<rparr>) \<and>
         (\<exists>m'. updatesModule us m = Inr m' \<and>
               length (historicalData m' p) = 1000 \<and>
               historicalData m' p =
                 drop k (randomWalk (last (historicalData m p)) (drawsFor p us)))"
proof -
  have ne: "\<forall>p. historicalData m p \<noteq> []" using ocean_buffers[OF assms(1)] by simp
  have le: "length (historicalData m p) \<le> 1000" using ocean_buffers[OF assms(1)] by simp
  have one: "updateCurrentValues now draws m =
           Inr (m\<lparr>historicalData :=
                  (\<lambda>q. (if length (historicalData m q) < 1000 then historicalData m q
                        else tl (historicalData m q))
                       @ [liveSample now (draws q) (historicalData m q)])\<rparr>)"
    unfolding update_total[OF ne] updateBuffer_def appendSample_alt by (rule refl)
  let ?m' = "m\<lparr>historicalData := (\<lambda>p. updatesBuffer (drawsFor p us) (historicalData m p))\<rparr>"
  have run: "updatesModule us m = Inr ?m'" using ne by (rule updatesModule_buffers)
  have l: "length (pushedSamples (drawsFor p us) (historicalData m p)) = 1000 + k"
    using assms(2) by (simp add: length_pushedSamples length_drawsFor)
  have b: "historicalData ?m' p = drop k (pushedSamples (drawsFor p us) (historicalData m p))"
    using appendAll_drop[OF le, of "pushedSamples (drawsFor p us) (historicalData m p)"] l
    by (simp add: updatesBuffer_appendAll)
  then have c: "length (historicalData ?m' p) = 1000" using l by simp
  have d: "historicalData ?m' p =
      drop k (randomWalk (last (historicalData m p)) (drawsFor p us))"
    using b by (simp add: pushedSamples_walk)
  show ?thesis using le one run c d by blast
qed

theorem ocean_buffers_keep_last_1000_witness:
  "oceanReachable sampleModule \<and> length (replicate 1003 (7::int, unitDraws)) = 1000 + 3 \<and>
   length (historicalData sampleModule Temperature) \<le> 1000 \<and>
   (\<exists>m'. updatesModule (replicate 1003 (7, unitDraws)) sampleModule = Inr m' \<and>
         length (historicalData m' Temperature) = 1000 \<and>
         historicalData m' Temperature =
           drop 3 (randomWalk (last (historicalData sampleModule Temperature))
             (drawsFor Temperature (replicate 1003 (7, unitDraws)))))"
proof -
  have l: "length (replicate 1003 (7::int, unitDraws)) = 1000 + 3" by simp
  from ocean_buffers_keep_last_1000[OF reachable_sampleModule l, of Temperature 7 unitDraws]
    reachable_sampleModule l
  show ?thesis by blast
qed

section \<open>The split point and the two slices\<close>

lemma bitLength_bounds:
  "0 < n \<Longrightarrow> 2 ^ (bitLength n - 1) \<le> n \<and> n < 2 ^ bitLength n"
proof (induction n rule: bitLength.induct)
  case (1 n)
  show ?case
  proof (cases "n div 2 = 0")
    case True
    with 1 have "n = 1" by (simp add: div_eq_0_iff)
    then show ?thesis by (simp add: bitLength.simps)
  next
    case False
    then have p: "0 < n div 2" by simp
    from 1 p have ih: "2 ^ (bitLength (n div 2) - 1) \<le> n div 2 \<and> n div 2 < 2 ^ bitLength (n div 2)"
      by simp
    have b: "bitLength n = Suc (bitLength (n div 2))" using 1 by (simp add: bitLength.simps[of n])
    have pos: "0 < bitLength (n div 2)" using p by (simp add: bitLength.simps[of "n div 2"])
    then obtain k where k: "bitLength (n div 2) = Suc k" by (cases "bitLength (n div 2)") auto
    from ih k have "2 ^ k \<le> n div 2" "n div 2 < 2 ^ Suc k" by simp_all
    then have "2 * 2 ^ k \<le> n" "n < 2 * 2 ^ Suc k" by linarith+
    then show ?thesis using b k by simp
  qed
qed

lemma roundToDouble_exact: "q < 2 ^ 53 \<Longrightarrow> roundToDouble q = q"
proof -
  assume a: "q < 2 ^ 53"
  have "bitLength q \<le> 53"
  proof (cases "q = 0")
    case True
    then show ?thesis by (simp add: bitLength.simps)
  next
    case False
    then have "2 ^ (bitLength q - 1) \<le> q" using bitLength_bounds[of q] by simp
    with a have "(2::nat) ^ (bitLength q - 1) < 2 ^ 53" by linarith
    then have "bitLength q - 1 < 53" by (simp only: power_strict_increasing_iff rel_simps)
    then show ?thesis by simp
  qed
  then show ?thesis by (simp add: roundToDouble_def)
qed

lemma roundToDouble_bounds:
  assumes "2 ^ 53 \<le> q"
  shows "2 ^ 53 \<le> roundToDouble q \<and> roundToDouble q * 2 ^ 52 \<le> q * (2 ^ 52 + 1)"
proof -
  define L where "L = bitLength q"
  define s where "s = L - 53"
  define m where "m = q div 2 ^ s"
  have qpos: "0 < q" using assms by (simp add: less_le_trans[of 0 "2 ^ 53" q])
  have lo: "2 ^ (L - 1) \<le> q" and hi: "q < 2 ^ L"
    using bitLength_bounds[OF qpos] by (simp_all add: L_def)
  have "(2::nat) ^ 53 < 2 ^ L" using assms hi by (rule le_less_trans)
  then have L: "53 < L" by (simp only: power_strict_increasing_iff rel_simps)
  then have Ls: "L - 1 = s + 52" and s1: "L = s + 53" by (simp_all add: s_def)
  have r: "roundToDouble q = m * 2 ^ s \<or> roundToDouble q = (m + 1) * 2 ^ s"
    using L by (auto simp: roundToDouble_def Let_def L_def s_def m_def)
  have q52: "2 ^ s * 2 ^ 52 \<le> q" using lo Ls by (simp add: power_add)
  have mq: "m * 2 ^ s \<le> q" by (simp add: m_def)
  have "2 ^ 52 * 2 ^ s \<le> m * 2 ^ s"
  proof -
    have "(2 ^ 52 * 2 ^ s) div 2 ^ s \<le> q div 2 ^ s"
      using q52 by (intro div_le_mono) (simp add: mult.commute)
    then have "2 ^ 52 \<le> m" by (simp add: m_def)
    then show ?thesis by simp
  qed
  moreover have "(2::nat) ^ 53 \<le> 2 ^ 52 * 2 ^ s"
  proof -
    have "(2::nat) ^ 1 \<le> 2 ^ s" using L by (intro power_increasing) (simp_all add: s_def)
    then have "(2::nat) ^ 52 * 2 ^ 1 \<le> 2 ^ 52 * 2 ^ s" by (intro mult_le_mono2)
    then show ?thesis by simp
  qed
  ultimately have low: "2 ^ 53 \<le> m * 2 ^ s" by (rule le_trans[rotated])
  have up: "(m + 1) * 2 ^ s * 2 ^ 52 \<le> q * (2 ^ 52 + 1)"
  proof -
    have "(m + 1) * 2 ^ s * 2 ^ 52 = m * 2 ^ s * 2 ^ 52 + 2 ^ s * 2 ^ 52"
      by (simp add: algebra_simps)
    also have "\<dots> \<le> q * 2 ^ 52 + q"
      using mq q52 by (intro add_mono mult_le_mono1) simp_all
    finally show ?thesis by (simp add: algebra_simps)
  qed
  have up0: "m * 2 ^ s * 2 ^ 52 \<le> q * (2 ^ 52 + 1)"
  proof -
    have "m * 2 ^ s * 2 ^ 52 \<le> (m + 1) * 2 ^ s * 2 ^ 52" by simp
    then show ?thesis using up by (rule le_trans)
  qed
  from r show ?thesis
  proof
    assume e: "roundToDouble q = m * 2 ^ s"
    show ?thesis using low up0 unfolding e by simp
  next
    assume e: "roundToDouble q = (m + 1) * 2 ^ s"
    have "m * 2 ^ s \<le> (m + 1) * 2 ^ s" by simp
    with low have "2 ^ 53 \<le> (m + 1) * 2 ^ s" by (rule le_trans)
    then show ?thesis using up unfolding e by simp
  qed
qed

lemma splitPointOf_0: "splitPointOf 0 = 0"
  by (simp add: splitPointOf_def roundToDouble_exact)

lemma splitPointOf_1: "splitPointOf (Suc 0) = 0"
  by (simp add: splitPointOf_def roundToDouble_exact double_0_7_def)

lemma splitPointOf_bounds:
  assumes "2 \<le> n"
  shows "1 \<le> splitPointOf n \<and> splitPointOf n < n"
proof -
  let ?q = "n * double_0_7"
  have "2 * double_0_7 \<le> ?q" using assms by (intro mult_le_mono1)
  moreover have "2 ^ 53 \<le> 2 * double_0_7" by (simp add: double_0_7_def)
  ultimately have q: "2 ^ 53 \<le> ?q" by (rule le_trans[rotated])
  note b = roundToDouble_bounds[OF q]
  have lower: "1 \<le> splitPointOf n"
  proof -
    have "2 ^ 53 div 2 ^ 53 \<le> roundToDouble ?q div (2 ^ 53 :: nat)"
      using b by (intro div_le_mono) simp
    then show ?thesis by (simp add: splitPointOf_def)
  qed
  have "double_0_7 * (2 ^ 52 + 1) < 2 ^ 53 * 2 ^ 52" by (simp add: double_0_7_def)
  then have "n * (double_0_7 * (2 ^ 52 + 1)) < n * (2 ^ 53 * 2 ^ 52)"
    using assms by (intro mult_strict_left_mono) simp_all
  then have "?q * (2 ^ 52 + 1) < (n * 2 ^ 53) * 2 ^ 52" by (simp only: mult.assoc)
  with b have "roundToDouble ?q * 2 ^ 52 < (n * 2 ^ 53) * 2 ^ 52"
    by (meson le_less_trans)
  then have "roundToDouble ?q < n * 2 ^ 53" by simp
  then have "roundToDouble ?q div 2 ^ 53 < n"
    by (simp add: less_mult_imp_div_less)
  then show ?thesis using lower by (simp add: splitPointOf_def)
qed

lemma splitPointOf_720: "splitPointOf 720 = 503"
  by (simp add: splitPointOf_def roundToDouble_def double_0_7_def bitLength.simps Let_def)

lemma slice_prefix: "slice xs 0 (int n) = take n xs"
  by (simp add: slice_def relativeIndex_def Let_def min_def)

lemma sliceFrom_nat: "sliceFrom xs (int n) = drop n xs"
  by (simp add: sliceFrom_def relativeIndex_def min_def)

lemma sliceFrom_minus_1: "sliceFrom xs (- 1) = drop (length xs - 1) xs"
  by (cases xs) (simp_all add: sliceFrom_def relativeIndex_def)

lemma forecastSplit_general:
  "forecastSplit data =
     (take (splitPointOf (length data)) data,
      if splitPointOf (length data) = 0 then drop (length data - 1) data
      else drop (splitPointOf (length data) - 1) data)"
proof (cases "splitPointOf (length data)")
  case 0
  then show ?thesis by (simp add: forecastSplit_def slice_prefix sliceFrom_minus_1)
next
  case (Suc k)
  then have "int (splitPointOf (length data)) - 1 = int k" by simp
  then show ?thesis using Suc
    by (simp add: forecastSplit_def Let_def slice_prefix sliceFrom_nat)
qed

text \<open>
  Claim C7 as stated fails for a snapshot of one sample: the split point is
  \<open>floor(0.7) = 0\<close>, so the historical slice \<open>slice(0, 0)\<close> is empty and the
  forecast slice \<open>slice(-1)\<close> is the last element, the sample itself.
\<close>

theorem single_sample_split_counterexample:
  "forecastSplit [numbered 0] = ([], [numbered 0]) \<and>
   forecastSplit [numbered 0] \<noteq> ([numbered 0], [])"
  by (simp add: forecastSplit_general splitPointOf_1)

text \<open>
  Claim C7, amended. With the split ratio 0.7 of the code: for an empty
  snapshot both parts are empty; for a snapshot of one sample the historical
  part is empty and the forecast part holds the sample; for a snapshot of at
  least two samples the split point \<open>sp\<close> satisfies \<open>1 \<le> sp < length\<close>, the
  historical part is the first \<open>sp\<close> samples and the forecast part starts at
  index \<open>sp - 1\<close>, so that the two parts overlap in exactly the one sample at
  index \<open>sp - 1\<close>: it is the last historical and the first forecast sample,
  and the historical part followed by the rest of the forecast part is the
  snapshot.
\<close>

theorem forecast_split_overlap:
  "forecastSplit [] = ([], []) \<and>
   forecastSplit [x] = ([], [x]) \<and>
   (2 \<le> length data \<longrightarrow>
      1 \<le> splitPointOf (length data) \<and> splitPointOf (length data) < length data \<and>
      forecastSplit data =
        (take (splitPointOf (length data)) data, drop (splitPointOf (length data) - 1) data) \<and>
      fst (forecastSplit data) \<noteq> [] \<and> snd (forecastSplit data) \<noteq> [] \<and>
      last (fst (forecastSplit data)) = data ! (splitPointOf (length data) - 1) \<and>
      hd (snd (forecastSplit data)) = data ! (splitPointOf (length data) - 1) \<and>
      fst (forecastSplit data) @ tl (snd (forecastSplit data)) = data \<and>
      length (fst (forecastSplit data)) + length (snd (forecastSplit data)) = length data + 1)"
proof (intro conjI impI)
  show "forecastSplit [] = ([], [])" by (simp add: forecastSplit_general)
  show "forecastSplit [x] = ([], [x])" by (simp add: forecastSplit_general splitPointOf_1)
next
  assume n: "2 \<le> length data"
  define sp where "sp = splitPointOf (length data)"
  have b: "1 \<le> sp" "sp < length data" using splitPointOf_bounds[OF n] by (simp_all add: sp_def)
  then obtain k where k: "sp = Suc k" by (cases sp) auto
  have f: "forecastSplit data = (take sp data, drop (sp - 1) data)"
    using b by (simp add: forecastSplit_general sp_def)
  show "1 \<le> splitPointOf (length data)" "splitPointOf (length data) < length data"
    using b by (simp_all add: sp_def)
  show "forecastSplit data =
        (take (splitPointOf (length data)) data, drop (splitPointOf (length data) - 1) data)"
    using f by (simp add: sp_def)
  have kl: "k < length data" using b k by simp
  have t: "take sp data = take k data @ [data ! k]"
    using kl k by (simp add: take_Suc_conv_app_nth)
  have d: "drop k data = data ! k # drop sp data"
    using kl k by (simp add: Cons_nth_drop_Suc)
  show "fst (forecastSplit data) \<noteq> []" using f t by simp
  show "snd (forecastSplit data) \<noteq> []" using f d k by simp
  show "last (fst (forecastSplit data)) = data ! (splitPointOf (length data) - 1)"
    using f t k by (simp add: sp_def[symmetric])
  show "hd (snd (forecastSplit data)) = data ! (splitPointOf (length data) - 1)"
    using f d k by (simp add: sp_def[symmetric])
  show "fst (forecastSplit data) @ tl (snd (forecastSplit data)) = data"
    using f d k by simp
  show "length (fst (forecastSplit data)) + length (snd (forecastSplit data)) = length data + 1"
    using f b k by simp
qed

theorem forecast_split_overlap_witness:
  "2 \<le> length (map numbered [0..<10]) \<and>
   forecastSplit (map numbered [0..<10]) =
     (take (splitPointOf 10) (map numbered [0..<10]),
      drop (splitPointOf 10 - 1) (map numbered [0..<10])) \<and>
   fst (forecastSplit (map numbered [0..<10])) @ tl (snd (forecastSplit (map numbered [0..<10])))
     = map numbered [0..<10] \<and>
   forecastSplit [numbered 3] = ([], [numbered 3])"
proof -
  have n: "2 \<le> length (map numbered [0..<10])" by simp
  have l: "length (map numbered [0..<10]) = 10" by simp
  note t = forecast_split_overlap[of "numbered 3" "map numbered [0..<10]"]
  have a: "forecastSplit [numbered 3] = ([], [numbered 3])" using t by blast
  have b: "forecastSplit (map numbered [0..<10]) =
     (take (splitPointOf (length (map numbered [0..<10]))) (map numbered [0..<10]),
      drop (splitPointOf (length (map numbered [0..<10])) - 1) (map numbered [0..<10]))"
    using t n by blast
  have c: "fst (forecastSplit (map numbered [0..<10])) @ tl (snd (forecastSplit (map numbered [0..<10])))
     = map numbered [0..<10]"
    using t n by blast
  show ?thesis using n a b c unfolding l by blast
qed

section \<open>The fallback of the dashboard figures\<close>

text \<open>
  Claim C8. When the statistics request is rejected or answered with a
  response that is not ok (whatever its body), \<open>updateDashboardKPIs\<close> does
  what \<open>updateKPIsWithMockData\<close> does: it starts the animations towards the
  fixed figures 5247, 8, 15 and 1847 for the KPI elements of the page. On a
  page that has the loading overlay, \<open>loadInitialData\<close> then ends without an
  error and with the overlay hidden.
\<close>

theorem stats_failure_falls_back_to_mock:
  assumes "present ''loading-overlay''"
  shows "mockData = \<lparr>totalSpecies = Some 5247, aiModels = Some 8,
                      monitoringStations = Some 15, predictionsToday = Some 1847\<rparr> \<and>
         updateDashboardKPIs present FetchRejected pg = updateKPIsWithMockData present pg \<and>
         updateDashboardKPIs present (Response False body) pg = updateKPIsWithMockData present pg \<and>
         animations (updateKPIsWithMockData present pg) =
           animations pg @ filter (\<lambda>(i, v). present i)
             [(''total-species'', Some 5247), (''ai-models'', Some 8),
              (''monitoring-stations'', Some 15), (''predictions-today'', Some 1847)] \<and>
         loadInitialData present FetchRejected pg =
           Inr (hideLoading (updateKPIsWithMockData present (showLoading pg))) \<and>
         loadInitialData present (Response False body) pg =
           Inr (hideLoading (updateKPIsWithMockData present (showLoading pg))) \<and>
         overlayDisplay (hideLoading (updateKPIsWithMockData present (showLoading pg))) = ''none''"
  using assms
  by (simp add: mockData_def updateDashboardKPIs_def updateKPIsWithMockData_def
      updateKPIsWithData_def loadInitialData_def hideLoading_def)

theorem stats_failure_falls_back_to_mock_witness:
  "loadInitialData (\<lambda>i. True) FetchRejected \<lparr>overlayDisplay = ''none'', animations = []\<rparr> =
     Inr \<lparr>overlayDisplay = ''none'',
          animations = [(''total-species'', Some 5247), (''ai-models'', Some 8),
              (''monitoring-stations'', Some 15), (''predictions-today'', Some 1847)]\<rparr> \<and>
   loadInitialData (\<lambda>i. True) (Response False JsonNull) \<lparr>overlayDisplay = ''none'', animations = []\<rparr> =
     Inr \<lparr>overlayDisplay = ''none'',
          animations = [(''total-species'', Some 5247), (''ai-models'', Some 8),
              (''monitoring-stations'', Some 15), (''predictions-today'', Some 1847)]\<rparr>"
  using stats_failure_falls_back_to_mock[of "\<lambda>i. True" "\<lparr>overlayDisplay = ''none'', animations = []\<rparr>" JsonNull]
  by (simp add: hideLoading_def showLoading_def updateKPIsWithMockData_def updateKPIsWithData_def
      mockData_def)

end
